theory Spec2Isabelle
  imports Complex_Main
begin

section \<open>Policy documents: data model\<close>

text \<open>
  The policy module of the backend (\<^verbatim>\<open>backend/app/policy\<close>) keeps three tables that the
  handlers below read and write: policy documents, per-day analytics rows and comments.
  A table is a list of rows in the order the datastore returns them (no handler of the
  search and read paths gives an \<^verbatim>\<open>ORDER BY\<close>, so one fixed order stands for it).

  A \<^verbatim>\<open>datetime\<close> is the number of microseconds since a fixed origin; its calendar day
  is the quotient by the length of a day, and the \<^verbatim>\<open>days\<close> of a \<^verbatim>\<open>timedelta\<close> is the
  floor of the difference divided by the length of a day, as Python normalises it.
  One request reads the clock once: \<open>now\<close> is an argument of every handler that calls
  \<^verbatim>\<open>datetime.now()\<close>. The columns are declared \<^verbatim>\<open>DateTime\<close> with no fractional
  precision: the datastore (MySQL, see \<^verbatim>\<open>core/config.py\<close>) rounds a value it is given to
  the nearest second, and its own clock (\<^verbatim>\<open>server_default=func.now()\<close>) has whole seconds.

  Columns declared \<^verbatim>\<open>nullable=False\<close> are plain values, the other columns a handler
  can leave or set \<^verbatim>\<open>NULL\<close> are options; the counters, which every handler writes as
  a number or leaves to the column default, are numbers. The timestamp \<^verbatim>\<open>updated_at\<close>
  is kept by the datastore alone and is not part of the model. An \<^verbatim>\<open>Integer\<close> column
  holds a signed 32-bit number and a \<^verbatim>\<open>String(n)\<close> column at most \<open>n\<close> characters; the
  datastore refuses a row that does not fit.

  A string is a list of characters of the ASCII range. On these the datastore's
  comparison \<^verbatim>\<open>column == value\<close> is taken as equality of strings and its folding of
  letters as the folding of \<^verbatim>\<open>A\<close> to \<^verbatim>\<open>Z\<close>; what the collation of the datastore does
  beyond that (letters outside the ASCII range, trailing spaces) is not modelled.
\<close>

type_synonym datetime = int

definition usec_per_day :: int where
  "usec_per_day = 86400000000"

definition date_of :: "datetime \<Rightarrow> int" where
  "date_of t = t div usec_per_day"

definition timedelta_days :: "datetime \<Rightarrow> datetime \<Rightarrow> int" where
  "timedelta_days end_date start_date = (end_date - start_date) div usec_per_day"

definition usec_per_second :: int where
  "usec_per_second = 1000000"

text \<open>A value written to a \<^verbatim>\<open>DateTime\<close> column, and the clock of the datastore.\<close>

definition to_DATETIME :: "datetime \<Rightarrow> datetime" where
  "to_DATETIME t = ((t + usec_per_second div 2) div usec_per_second) * usec_per_second"

definition func_now :: "datetime \<Rightarrow> datetime" where
  "func_now now = (now div usec_per_second) * usec_per_second"

text \<open>
  What a handler raises. \<open>HTTPException\<close> is the answer the handler chooses; the others
  are raised by the libraries below it and reach the caller as a server error.
\<close>

datatype error =
    HTTPException nat string
  | AmbiguousForeignKeysError string
  | NoForeignKeysError string
  | ProgrammingError
  | DataError
  | IntegrityError
  | ValidationError
  | ResponseValidationError
  | TypeError

definition HTTP_400_BAD_REQUEST :: nat where "HTTP_400_BAD_REQUEST = 400"
definition HTTP_403_FORBIDDEN :: nat where "HTTP_403_FORBIDDEN = 403"
definition HTTP_404_NOT_FOUND :: nat where "HTTP_404_NOT_FOUND = 404"

record user =
  user_id :: int
  user_role :: string

record policy_document =
  doc_id :: int
  doc_title :: string
  doc_document_number :: string
  doc_document_type :: string
  doc_category :: string
  doc_department :: string
  doc_summary :: string
  doc_content :: string
  doc_keywords :: "string option"
  doc_effective_date :: datetime
  doc_expiry_date :: "datetime option"
  doc_status :: "string option"
  doc_version :: string
  doc_language :: string
  doc_file_url :: "string option"
  doc_created_by :: int
  doc_reviewed_by :: "int option"
  doc_is_public :: "bool option"
  doc_view_count :: int
  doc_created_at :: datetime

record policy_comment =
  com_id :: int
  com_policy_document_id :: int
  com_comment_text :: string
  com_comment_type :: string
  com_is_public :: bool
  com_commenter_id :: int
  com_created_at :: datetime

record policy_analytics =
  an_id :: int
  an_policy_document_id :: int
  an_analytics_date :: datetime
  an_views :: int
  an_downloads :: int
  an_comments_count :: int
  an_citations_count :: int
  an_search_appearances :: int

section \<open>The mapper registry\<close>

text \<open>
  The classes of \<^verbatim>\<open>policy/models.py\<close> declare their tables, foreign keys and
  relationships. The ORM configures every relationship of the registry when the first
  query is built: for a relationship declared without \<^verbatim>\<open>foreign_keys\<close> it looks for the
  foreign keys that link the two tables, in either direction, and raises when it finds
  none or more than one. A process whose configuration failed raises at every later
  query too (then as \<^verbatim>\<open>InvalidRequestError\<close>, which carries the first failure; the model
  has one value for both).
\<close>

record foreign_key =
  fk_table :: string
  fk_column :: string
  fk_references :: string

record relationship =
  rel_class :: string
  rel_name :: string
  rel_argument :: string
  rel_foreign_keys :: "string list option"

record registry =
  reg_tablename :: "(string \<times> string) list"
  reg_foreign_keys :: "foreign_key list"
  reg_relationships :: "relationship list"

definition tablename :: "registry \<Rightarrow> string \<Rightarrow> string" where
  "tablename reg cls = (case map_of (reg_tablename reg) cls of Some t \<Rightarrow> t | None \<Rightarrow> [])"

definition join_keys :: "registry \<Rightarrow> relationship \<Rightarrow> foreign_key list" where
  "join_keys reg r =
     (let a = tablename reg (rel_class r); b = tablename reg (rel_argument r) in
      filter (\<lambda>k. fk_table k = a \<and> fk_references k = b \<or> fk_table k = b \<and> fk_references k = a)
        (reg_foreign_keys reg))"

definition configure_relationship :: "registry \<Rightarrow> relationship \<Rightarrow> error option" where
  "configure_relationship reg r =
     (case rel_foreign_keys r of
        Some columns \<Rightarrow> None
      | None \<Rightarrow>
          (case join_keys reg r of
             [] \<Rightarrow> Some (NoForeignKeysError (rel_class r @ ''.'' @ rel_name r))
           | [k] \<Rightarrow> None
           | k # k' # ks \<Rightarrow> Some (AmbiguousForeignKeysError (rel_class r @ ''.'' @ rel_name r))))"

definition configure_mappers :: "registry \<Rightarrow> error option" where
  "configure_mappers reg =
     (case List.map_filter (configure_relationship reg) (reg_relationships reg) of
        [] \<Rightarrow> None
      | e # es \<Rightarrow> Some e)"

text \<open>
  The declarations of \<^verbatim>\<open>policy/models.py\<close>, class by class and line by line.
  \<^verbatim>\<open>PolicyDocument.citations\<close> is declared with \<^verbatim>\<open>back_populates\<close> only, and
  \<^verbatim>\<open>policy_citations\<close> has two foreign keys to \<^verbatim>\<open>policy_documents\<close>.
\<close>

definition models_py :: registry where
  "models_py =
     \<lparr>reg_tablename =
        [(''PolicyDocument'', ''policy_documents''), (''PolicyAmendment'', ''policy_amendments''),
         (''PolicyComment'', ''policy_comments''), (''PolicyCitation'', ''policy_citations''),
         (''PolicyAnalytics'', ''policy_analytics''), (''User'', ''users'')],
      reg_foreign_keys =
        [\<lparr>fk_table = ''policy_documents'', fk_column = ''created_by'', fk_references = ''users''\<rparr>,
         \<lparr>fk_table = ''policy_documents'', fk_column = ''reviewed_by'', fk_references = ''users''\<rparr>,
         \<lparr>fk_table = ''policy_amendments'', fk_column = ''policy_document_id'',
          fk_references = ''policy_documents''\<rparr>,
         \<lparr>fk_table = ''policy_amendments'', fk_column = ''proposed_by'', fk_references = ''users''\<rparr>,
         \<lparr>fk_table = ''policy_amendments'', fk_column = ''approved_by'', fk_references = ''users''\<rparr>,
         \<lparr>fk_table = ''policy_comments'', fk_column = ''policy_document_id'',
          fk_references = ''policy_documents''\<rparr>,
         \<lparr>fk_table = ''policy_comments'', fk_column = ''commenter_id'', fk_references = ''users''\<rparr>,
         \<lparr>fk_table = ''policy_comments'', fk_column = ''responded_by'', fk_references = ''users''\<rparr>,
         \<lparr>fk_table = ''policy_citations'', fk_column = ''citing_document_id'',
          fk_references = ''policy_documents''\<rparr>,
         \<lparr>fk_table = ''policy_citations'', fk_column = ''cited_document_id'',
          fk_references = ''policy_documents''\<rparr>,
         \<lparr>fk_table = ''policy_analytics'', fk_column = ''policy_document_id'',
          fk_references = ''policy_documents''\<rparr>],
      reg_relationships =
        [\<lparr>rel_class = ''PolicyDocument'', rel_name = ''creator'', rel_argument = ''User'',
          rel_foreign_keys = Some [''created_by'']\<rparr>,
         \<lparr>rel_class = ''PolicyDocument'', rel_name = ''reviewer'', rel_argument = ''User'',
          rel_foreign_keys = Some [''reviewed_by'']\<rparr>,
         \<lparr>rel_class = ''PolicyDocument'', rel_name = ''amendments'',
          rel_argument = ''PolicyAmendment'', rel_foreign_keys = None\<rparr>,
         \<lparr>rel_class = ''PolicyDocument'', rel_name = ''comments'',
          rel_argument = ''PolicyComment'', rel_foreign_keys = None\<rparr>,
         \<lparr>rel_class = ''PolicyDocument'', rel_name = ''citations'',
          rel_argument = ''PolicyCitation'', rel_foreign_keys = None\<rparr>,
         \<lparr>rel_class = ''PolicyAmendment'', rel_name = ''policy_document'',
          rel_argument = ''PolicyDocument'', rel_foreign_keys = None\<rparr>,
         \<lparr>rel_class = ''PolicyAmendment'', rel_name = ''proposer'', rel_argument = ''User'',
          rel_foreign_keys = Some [''proposed_by'']\<rparr>,
         \<lparr>rel_class = ''PolicyAmendment'', rel_name = ''approver'', rel_argument = ''User'',
          rel_foreign_keys = Some [''approved_by'']\<rparr>,
         \<lparr>rel_class = ''PolicyComment'', rel_name = ''policy_document'',
          rel_argument = ''PolicyDocument'', rel_foreign_keys = None\<rparr>,
         \<lparr>rel_class = ''PolicyComment'', rel_name = ''commenter'', rel_argument = ''User'',
          rel_foreign_keys = Some [''commenter_id'']\<rparr>,
         \<lparr>rel_class = ''PolicyComment'', rel_name = ''responder'', rel_argument = ''User'',
          rel_foreign_keys = Some [''responded_by'']\<rparr>,
         \<lparr>rel_class = ''PolicyCitation'', rel_name = ''citing_document'',
          rel_argument = ''PolicyDocument'', rel_foreign_keys = Some [''citing_document_id'']\<rparr>,
         \<lparr>rel_class = ''PolicyCitation'', rel_name = ''cited_document'',
          rel_argument = ''PolicyDocument'', rel_foreign_keys = Some [''cited_document_id'']\<rparr>,
         \<lparr>rel_class = ''PolicyAnalytics'', rel_name = ''policy_document'',
          rel_argument = ''PolicyDocument'', rel_foreign_keys = None\<rparr>]\<rparr>"

section \<open>The session\<close>

text \<open>
  A \<^verbatim>\<open>Session\<close> gives a handler the three tables and the registry its process runs
  with. \<^verbatim>\<open>db.query(...)\<close> configures the registry before it reads a table.
\<close>

record db =
  documents :: "policy_document list"
  analytics :: "policy_analytics list"
  comments :: "policy_comment list"
  mappers :: registry

definition db_query :: "db \<Rightarrow> 'a list \<Rightarrow> error + 'a list" where
  "db_query d rows = (case configure_mappers (mappers d) of Some e \<Rightarrow> Inl e | None \<Rightarrow> Inr rows)"

text \<open>The range of an \<^verbatim>\<open>Integer\<close> column.\<close>

definition INT_MAX :: int where
  "INT_MAX = 2147483647"

definition in_INT :: "int \<Rightarrow> bool" where
  "in_INT n = (- INT_MAX - 1 \<le> n \<and> n \<le> INT_MAX)"

text \<open>
  The datastore numbers a new row with the next free primary key; when the key has
  reached the end of the range the insert fails.
\<close>

definition next_id :: "int list \<Rightarrow> int" where
  "next_id ids = fold max ids 0 + 1"

text \<open>
  \<^verbatim>\<open>query.first()\<close> is \<^const>\<open>find\<close> on the table; a change to the object it returned
  is written back to that row at commit.
\<close>

fun update_first :: "('a \<Rightarrow> bool) \<Rightarrow> ('a \<Rightarrow> 'a) \<Rightarrow> 'a list \<Rightarrow> 'a list" where
  "update_first P f [] = []"
| "update_first P f (x # xs) = (if P x then f x # xs else x # update_first P f xs)"

definition truthy :: "string option \<Rightarrow> bool" where
  "truthy s = (case s of None \<Rightarrow> False | Some v \<Rightarrow> v \<noteq> [])"

section \<open>Pattern matching of the datastore\<close>

text \<open>
  \<^verbatim>\<open>column.ilike(pattern)\<close> is sent to the configured datastore (MySQL, see
  \<^verbatim>\<open>core/config.py\<close>) as \<^verbatim>\<open>lower(column) LIKE lower(pattern)\<close>. In a pattern \<^verbatim>\<open>%\<close> stands
  for any run of characters, \<^verbatim>\<open>_\<close> for any one character, and a backslash makes the
  character after it literal; a backslash at the very end of the pattern stands for itself.
  Letters are folded on the ASCII range (see the first section).
\<close>

definition lower_char :: "char \<Rightarrow> char" where
  "lower_char c =
     (let n = (of_char c :: nat) in if 65 \<le> n \<and> n \<le> 90 then char_of (n + 32) else c)"

definition lower :: "string \<Rightarrow> string" where
  "lower s = map lower_char s"

fun like :: "string \<Rightarrow> string \<Rightarrow> bool" where
  "like s [] = (s = [])"
| "like s (p # ps) =
     (if p = CHR ''%'' then
        (like s ps \<or> (case s of [] \<Rightarrow> False | c # cs \<Rightarrow> like cs (p # ps)))
      else if p = CHR ''_'' then
        (case s of [] \<Rightarrow> False | c # cs \<Rightarrow> like cs ps)
      else if p = CHR 0x5C then
        (case ps of
           [] \<Rightarrow> (case s of [] \<Rightarrow> False | c # cs \<Rightarrow> c = p \<and> like cs [])
         | q # qs \<Rightarrow> (case s of [] \<Rightarrow> False | c # cs \<Rightarrow> c = q \<and> like cs qs))
      else
        (case s of [] \<Rightarrow> False | c # cs \<Rightarrow> c = p \<and> like cs ps))"

definition ilike :: "string \<Rightarrow> string \<Rightarrow> bool" where
  "ilike column pattern = like (lower column) (lower pattern)"

text \<open>A comparison with a \<^verbatim>\<open>NULL\<close> column selects no row.\<close>

definition ilike_opt :: "string option \<Rightarrow> string \<Rightarrow> bool" where
  "ilike_opt column pattern = (case column of None \<Rightarrow> False | Some v \<Rightarrow> ilike v pattern)"

definition contains_pattern :: "string \<Rightarrow> string" where
  "contains_pattern query = ''%'' @ query @ ''%''"

section \<open>Daily analytics rows\<close>

text \<open>
  Three handlers (search, read, comment) carry the same lines: look for the row of the
  document whose \<^verbatim>\<open>analytics_date\<close> falls on today's date; add one to a counter of
  that row when there is one, else add a row stamped with the current time whose counter
  is one and whose other counters take the column default zero. \<open>counter\<close> names the
  counter a handler increments. The write is refused when the counter or the key of the
  new row leaves the range of its column.
\<close>

datatype counter = Views | CommentsCount | SearchAppearances

definition increment :: "counter \<Rightarrow> policy_analytics \<Rightarrow> policy_analytics" where
  "increment c a =
     (case c of
        Views \<Rightarrow> a\<lparr>an_views := an_views a + 1\<rparr>
      | CommentsCount \<Rightarrow> a\<lparr>an_comments_count := an_comments_count a + 1\<rparr>
      | SearchAppearances \<Rightarrow> a\<lparr>an_search_appearances := an_search_appearances a + 1\<rparr>)"

definition counter_of :: "counter \<Rightarrow> policy_analytics \<Rightarrow> int" where
  "counter_of c a =
     (case c of
        Views \<Rightarrow> an_views a
      | CommentsCount \<Rightarrow> an_comments_count a
      | SearchAppearances \<Rightarrow> an_search_appearances a)"

definition new_analytics :: "int \<Rightarrow> int \<Rightarrow> datetime \<Rightarrow> policy_analytics" where
  "new_analytics i document_id now =
     \<lparr>an_id = i, an_policy_document_id = document_id, an_analytics_date = to_DATETIME now,
      an_views = 0, an_downloads = 0, an_comments_count = 0, an_citations_count = 0,
      an_search_appearances = 0\<rparr>"

definition same_day :: "int \<Rightarrow> int \<Rightarrow> policy_analytics \<Rightarrow> bool" where
  "same_day document_id today a =
     (an_policy_document_id a = document_id \<and> date_of (an_analytics_date a) = today)"

definition update_analytics ::
  "counter \<Rightarrow> int \<Rightarrow> datetime \<Rightarrow> policy_analytics list \<Rightarrow> error + policy_analytics list" where
  "update_analytics c document_id now rows =
     (let today = date_of now in
      case find (same_day document_id today) rows of
        Some a \<Rightarrow>
          if in_INT (counter_of c a + 1)
          then Inr (update_first (same_day document_id today) (increment c) rows)
          else Inl DataError
      | None \<Rightarrow>
          if in_INT (next_id (map an_id rows))
          then Inr (rows @ [increment c (new_analytics (next_id (map an_id rows)) document_id now)])
          else Inl IntegrityError)"

section \<open>Search\<close>

record policy_search_result =
  res_id :: int
  res_title :: string
  res_document_number :: string
  res_document_type :: string
  res_category :: string
  res_department :: string
  res_summary :: string
  res_effective_date :: datetime
  res_status :: string
  res_relevance_score :: "rat option"

text \<open>
  The schema \<^verbatim>\<open>PolicySearchResult\<close> declares \<^verbatim>\<open>status: str\<close>: building a result from a
  row whose status is \<^verbatim>\<open>NULL\<close> raises a validation error.
\<close>

definition PolicySearchResult :: "policy_document \<Rightarrow> rat \<Rightarrow> error + policy_search_result" where
  "PolicySearchResult doc score =
     (case doc_status doc of
        None \<Rightarrow> Inl ValidationError
      | Some s \<Rightarrow>
          Inr \<lparr>res_id = doc_id doc, res_title = doc_title doc,
               res_document_number = doc_document_number doc,
               res_document_type = doc_document_type doc,
               res_category = doc_category doc, res_department = doc_department doc,
               res_summary = doc_summary doc, res_effective_date = doc_effective_date doc,
               res_status = s, res_relevance_score = Some score\<rparr>)"

text \<open>The loop \<^verbatim>\<open>for doc in rows: results.append(PolicySearchResult(...))\<close>.\<close>

fun append_results ::
  "rat \<Rightarrow> policy_document list \<Rightarrow> policy_search_result list \<Rightarrow> error + policy_search_result list"
where
  "append_results score [] results = Inr results"
| "append_results score (doc # rows) results =
     (case PolicySearchResult doc score of
        Inl e \<Rightarrow> Inl e
      | Inr r \<Rightarrow> append_results score rows (results @ [r]))"

text \<open>
  \<^verbatim>\<open>OFFSET\<close> and \<^verbatim>\<open>LIMIT\<close>: the datastore refuses a negative offset or limit, the
  handler does not catch the error.
\<close>

definition offset_limit :: "int \<Rightarrow> int \<Rightarrow> 'a list \<Rightarrow> error + 'a list" where
  "offset_limit skip limit rows =
     (if skip < 0 \<or> limit < 0 then Inl ProgrammingError
      else Inr (take (nat limit) (drop (nat skip) rows)))"

definition base_query ::
  "string option \<Rightarrow> string option \<Rightarrow> string option \<Rightarrow> string option \<Rightarrow>
   policy_document list \<Rightarrow> policy_document list" where
  "base_query document_type category department status rows =
     (let q = filter (\<lambda>d. doc_is_public d = Some True) rows;
          q = (if truthy status then filter (\<lambda>d. doc_status d = status) q else q);
          q = (if truthy document_type
               then filter (\<lambda>d. Some (doc_document_type d) = document_type) q else q);
          q = (if truthy category then filter (\<lambda>d. Some (doc_category d) = category) q else q);
          q = (if truthy department
               then filter (\<lambda>d. Some (doc_department d) = department) q else q)
      in q)"

definition search_query :: "string \<Rightarrow> policy_document list \<Rightarrow> policy_document list" where
  "search_query query rows =
     filter (\<lambda>d. ilike (doc_title d) (contains_pattern query)
                \<or> ilike (doc_summary d) (contains_pattern query)
                \<or> ilike (doc_content d) (contains_pattern query)
                \<or> ilike_opt (doc_keywords d) (contains_pattern query)
                \<or> ilike (doc_document_number d) (contains_pattern query)) rows"

definition title_matches :: "string \<Rightarrow> policy_document list \<Rightarrow> policy_document list" where
  "title_matches query rows =
     filter (\<lambda>d. ilike (doc_title d) (contains_pattern query)) (search_query query rows)"

definition summary_matches :: "string \<Rightarrow> policy_document list \<Rightarrow> policy_document list" where
  "summary_matches query rows =
     filter (\<lambda>d. ilike (doc_summary d) (contains_pattern query)
                \<and> \<not> ilike (doc_title d) (contains_pattern query)) (search_query query rows)"

definition content_matches :: "string \<Rightarrow> policy_document list \<Rightarrow> policy_document list" where
  "content_matches query rows =
     filter (\<lambda>d. ilike (doc_content d) (contains_pattern query)
                \<and> \<not> ilike (doc_title d) (contains_pattern query)
                \<and> \<not> ilike (doc_summary d) (contains_pattern query)) (search_query query rows)"

definition and_then :: "error + 'a \<Rightarrow> ('a \<Rightarrow> error + 'b) \<Rightarrow> error + 'b" where
  "and_then m f = (case m of Inl e \<Rightarrow> Inl e | Inr x \<Rightarrow> f x)"

text \<open>The loop that books one search appearance for each result.\<close>

fun update_search_appearances ::
  "datetime \<Rightarrow> policy_search_result list \<Rightarrow> policy_analytics list \<Rightarrow> error + policy_analytics list"
where
  "update_search_appearances now [] rows = Inr rows"
| "update_search_appearances now (result # results) rows =
     and_then (update_analytics SearchAppearances (res_id result) now rows)
       (update_search_appearances now results)"

text \<open>
  The handler. A parameter the caller leaves out takes the default of the signature
  before the body runs: \<^verbatim>\<open>skip = 0\<close>, \<^verbatim>\<open>limit = 100\<close>, \<^verbatim>\<open>status = "active"\<close>, the other
  filters \<^verbatim>\<open>None\<close>.
\<close>

definition search_policy_documents ::
  "datetime \<Rightarrow> string \<Rightarrow> int \<Rightarrow> int \<Rightarrow> string option \<Rightarrow> string option \<Rightarrow> string option \<Rightarrow>
   string option \<Rightarrow> db \<Rightarrow> error + (policy_search_result list \<times> db)" where
  "search_policy_documents now query skip limit document_type category department status d =
     and_then (db_query d (documents d)) (\<lambda>stored.
     let base = base_query document_type category department status stored in
      and_then (offset_limit skip limit (title_matches query base)) (\<lambda>rows.
      and_then (append_results 1 rows []) (\<lambda>results.
      and_then
        (let remaining_limit = limit - int (length results) in
         if remaining_limit > 0
         then append_results (7 / 10) (take (nat remaining_limit) (summary_matches query base))
                results
         else Inr results) (\<lambda>results.
      and_then
        (let remaining_limit = limit - int (length results) in
         if remaining_limit > 0
         then append_results (1 / 2) (take (nat remaining_limit) (content_matches query base))
                results
         else Inr results) (\<lambda>results.
      and_then (update_search_appearances now results (analytics d)) (\<lambda>analytics_rows.
      Inr (results, d\<lparr>analytics := analytics_rows\<rparr>)))))))"


section \<open>Creating, reading and updating a document\<close>

text \<open>
  \<^verbatim>\<open>current_user.role not in ["admin", "government_official"]\<close> guards the handlers
  that write documents or report on them.
\<close>

definition privileged :: "user \<Rightarrow> bool" where
  "privileged current_user = (user_role current_user \<in> set [''admin'', ''government_official''])"

text \<open>
  A call \<^verbatim>\<open>Model(**payload.dict(), key=value, ...)\<close> raises \<^verbatim>\<open>TypeError\<close> when a key of
  the unpacked dictionary is given again as a keyword.
\<close>

definition duplicate_keyword :: "string list \<Rightarrow> string list \<Rightarrow> bool" where
  "duplicate_keyword unpacked given = (\<exists>k\<in>set unpacked. k \<in> set given)"

record policy_document_create =
  new_title :: string
  new_document_number :: string
  new_document_type :: string
  new_category :: string
  new_department :: string
  new_summary :: string
  new_content :: string
  new_keywords :: "string option"
  new_effective_date :: datetime
  new_expiry_date :: "datetime option"
  new_version :: string
  new_language :: string
  new_file_url :: "string option"
  new_is_public :: bool

definition PolicyDocumentCreate_keys :: "string list" where
  "PolicyDocumentCreate_keys =
     [''title'', ''document_number'', ''document_type'', ''category'', ''department'',
      ''summary'', ''content'', ''keywords'', ''effective_date'', ''expiry_date'', ''version'',
      ''language'', ''file_url'', ''is_public'']"

text \<open>
  The new row as the datastore holds it after the insert: the payload's fields, the
  creator, and the column defaults of the table (\<^verbatim>\<open>status\<close> \<^verbatim>\<open>"active"\<close>,
  \<^verbatim>\<open>view_count\<close> zero, no reviewer, creation time the clock of the datastore).
\<close>

definition PolicyDocument :: "int \<Rightarrow> datetime \<Rightarrow> policy_document_create \<Rightarrow> int \<Rightarrow> policy_document" where
  "PolicyDocument i now document created_by =
     \<lparr>doc_id = i, doc_title = new_title document,
      doc_document_number = new_document_number document,
      doc_document_type = new_document_type document, doc_category = new_category document,
      doc_department = new_department document, doc_summary = new_summary document,
      doc_content = new_content document, doc_keywords = new_keywords document,
      doc_effective_date = to_DATETIME (new_effective_date document),
      doc_expiry_date = map_option to_DATETIME (new_expiry_date document),
      doc_status = Some ''active'',
      doc_version = new_version document, doc_language = new_language document,
      doc_file_url = new_file_url document, doc_created_by = created_by,
      doc_reviewed_by = None, doc_is_public = Some (new_is_public document),
      doc_view_count = 0, doc_created_at = func_now now\<rparr>"

text \<open>
  The declared sizes of the columns of \<^verbatim>\<open>policy_documents\<close>: \<^verbatim>\<open>String(n)\<close> holds at
  most \<open>n\<close> characters, \<^verbatim>\<open>Text\<close> at most 65535, \<^verbatim>\<open>Integer\<close> a signed 32-bit number.
  The datastore refuses the insert or update of a row that does not fit.
\<close>

definition fits :: "nat \<Rightarrow> string option \<Rightarrow> bool" where
  "fits n column = (case column of None \<Rightarrow> True | Some v \<Rightarrow> length v \<le> n)"

definition policy_documents_columns :: "policy_document \<Rightarrow> bool" where
  "policy_documents_columns doc =
     (in_INT (doc_id doc) \<and> length (doc_title doc) \<le> 500
      \<and> length (doc_document_number doc) \<le> 100 \<and> length (doc_document_type doc) \<le> 100
      \<and> length (doc_category doc) \<le> 100 \<and> length (doc_department doc) \<le> 100
      \<and> length (doc_summary doc) \<le> 65535 \<and> length (doc_content doc) \<le> 65535
      \<and> fits 65535 (doc_keywords doc) \<and> fits 50 (doc_status doc)
      \<and> length (doc_version doc) \<le> 20 \<and> length (doc_language doc) \<le> 10
      \<and> fits 500 (doc_file_url doc) \<and> in_INT (doc_created_by doc)
      \<and> (case doc_reviewed_by doc of None \<Rightarrow> True | Some u \<Rightarrow> in_INT u)
      \<and> in_INT (doc_view_count doc))"

text \<open>
  The endpoints that return a document declare \<^verbatim>\<open>response_model=PolicyDocumentResponse\<close>,
  whose fields \<^verbatim>\<open>status: str\<close> and \<^verbatim>\<open>is_public: bool\<close> do not admit \<^verbatim>\<open>None\<close>: the
  value the handler returns is validated after the handler has committed.
\<close>

definition PolicyDocumentResponse :: "policy_document \<Rightarrow> error + policy_document" where
  "PolicyDocumentResponse document =
     (if doc_status document = None \<or> doc_is_public document = None
      then Inl ResponseValidationError else Inr document)"

text \<open>
  A handler that writes returns the answer the caller gets and the state it leaves: the
  state it was given when it raised before its commit, the committed state otherwise.
\<close>

definition create_policy_document ::
  "datetime \<Rightarrow> policy_document_create \<Rightarrow> user \<Rightarrow> db \<Rightarrow> (error + policy_document) \<times> db" where
  "create_policy_document now document current_user d =
     (if \<not> privileged current_user
      then (Inl (HTTPException HTTP_403_FORBIDDEN ''Not enough permissions''), d)
      else
        case db_query d (documents d) of
          Inl e \<Rightarrow> (Inl e, d)
        | Inr stored \<Rightarrow>
            (case find (\<lambda>doc. doc_document_number doc = new_document_number document) stored of
               Some existing \<Rightarrow>
                 (Inl (HTTPException HTTP_400_BAD_REQUEST ''Document number already exists''), d)
             | None \<Rightarrow>
                 if duplicate_keyword PolicyDocumentCreate_keys [''created_by'']
                 then (Inl TypeError, d)
                 else
                   let db_document =
                         PolicyDocument (next_id (map doc_id stored)) now document
                           (user_id current_user)
                   in if \<not> in_INT (doc_id db_document) then (Inl IntegrityError, d)
                      else if \<not> policy_documents_columns db_document then (Inl DataError, d)
                      else (PolicyDocumentResponse db_document,
                            d\<lparr>documents := documents d @ [db_document]\<rparr>)))"

text \<open>
  Reading a document. The handler has no \<^verbatim>\<open>current_user\<close> parameter: whoever calls, a
  row whose \<^verbatim>\<open>is_public\<close> is false or \<^verbatim>\<open>NULL\<close> is refused.
\<close>

definition get_policy_document :: "datetime \<Rightarrow> int \<Rightarrow> db \<Rightarrow> (error + policy_document) \<times> db" where
  "get_policy_document now document_id d =
     (case db_query d (documents d) of
        Inl e \<Rightarrow> (Inl e, d)
      | Inr stored \<Rightarrow>
          (case find (\<lambda>doc. doc_id doc = document_id) stored of
             None \<Rightarrow> (Inl (HTTPException HTTP_404_NOT_FOUND ''Policy document not found''), d)
           | Some document \<Rightarrow>
               if doc_is_public document \<noteq> Some True
               then (Inl (HTTPException HTTP_403_FORBIDDEN ''Document is not public''), d)
               else if \<not> in_INT (doc_view_count document + 1) then (Inl DataError, d)
               else
                 (case update_analytics Views document_id now (analytics d) of
                    Inl e \<Rightarrow> (Inl e, d)
                  | Inr analytics_rows \<Rightarrow>
                      (PolicyDocumentResponse
                         (document\<lparr>doc_view_count := doc_view_count document + 1\<rparr>),
                       d\<lparr>documents :=
                           update_first (\<lambda>doc. doc_id doc = document_id)
                             (\<lambda>doc. doc\<lparr>doc_view_count := doc_view_count doc + 1\<rparr>) (documents d),
                         analytics := analytics_rows\<rparr>))))"

text \<open>
  The update payload. Every field of \<^verbatim>\<open>PolicyDocumentUpdate\<close> is optional:
  \<open>None\<close> is a field the caller left out (\<^verbatim>\<open>exclude_unset\<close> drops it),
  \<open>Some None\<close> a field sent as \<^verbatim>\<open>null\<close>, \<open>Some (Some v)\<close> a field sent with a value.
  The payload has no other field; a key it does not declare is ignored when the request
  is parsed.
\<close>

record policy_document_update =
  upd_title :: "string option option"
  upd_summary :: "string option option"
  upd_content :: "string option option"
  upd_keywords :: "string option option"
  upd_expiry_date :: "datetime option option"
  upd_status :: "string option option"
  upd_file_url :: "string option option"
  upd_is_public :: "bool option option"

text \<open>\<^verbatim>\<open>setattr\<close> of \<^verbatim>\<open>None\<close> on a column declared \<^verbatim>\<open>nullable=False\<close> fails at commit.\<close>

definition null_violation :: "policy_document_update \<Rightarrow> bool" where
  "null_violation document_update =
     (upd_title document_update = Some None \<or> upd_summary document_update = Some None
      \<or> upd_content document_update = Some None)"

definition set_required :: "'a option option \<Rightarrow> 'a \<Rightarrow> 'a" where
  "set_required field old = (case field of Some (Some v) \<Rightarrow> v | _ \<Rightarrow> old)"

definition set_nullable :: "'a option option \<Rightarrow> 'a option \<Rightarrow> 'a option" where
  "set_nullable field old = (case field of Some v \<Rightarrow> v | None \<Rightarrow> old)"

definition setattrs :: "policy_document_update \<Rightarrow> policy_document \<Rightarrow> policy_document" where
  "setattrs document_update document =
     document\<lparr>doc_title := set_required (upd_title document_update) (doc_title document),
              doc_summary := set_required (upd_summary document_update) (doc_summary document),
              doc_content := set_required (upd_content document_update) (doc_content document),
              doc_keywords := set_nullable (upd_keywords document_update) (doc_keywords document),
              doc_expiry_date :=
                set_nullable (map_option (map_option to_DATETIME) (upd_expiry_date document_update))
                  (doc_expiry_date document),
              doc_status := set_nullable (upd_status document_update) (doc_status document),
              doc_file_url := set_nullable (upd_file_url document_update) (doc_file_url document),
              doc_is_public :=
                set_nullable (upd_is_public document_update) (doc_is_public document)\<rparr>"

definition update_policy_document ::
  "int \<Rightarrow> policy_document_update \<Rightarrow> user \<Rightarrow> db \<Rightarrow> (error + policy_document) \<times> db" where
  "update_policy_document document_id document_update current_user d =
     (if \<not> privileged current_user
      then (Inl (HTTPException HTTP_403_FORBIDDEN ''Not enough permissions''), d)
      else
        case db_query d (documents d) of
          Inl e \<Rightarrow> (Inl e, d)
        | Inr stored \<Rightarrow>
            (case find (\<lambda>doc. doc_id doc = document_id) stored of
               None \<Rightarrow> (Inl (HTTPException HTTP_404_NOT_FOUND ''Policy document not found''), d)
             | Some document \<Rightarrow>
                 if user_role current_user \<noteq> ''admin''
                    \<and> doc_created_by document \<noteq> user_id current_user
                 then (Inl (HTTPException HTTP_403_FORBIDDEN
                              ''Not enough permissions to edit this document''), d)
                 else if null_violation document_update then (Inl IntegrityError, d)
                 else if \<not> policy_documents_columns (setattrs document_update document)
                 then (Inl DataError, d)
                 else
                   (PolicyDocumentResponse (setattrs document_update document),
                    d\<lparr>documents :=
                        update_first (\<lambda>doc. doc_id doc = document_id)
                          (setattrs document_update) (documents d)\<rparr>)))"

section \<open>Comments\<close>

record policy_comment_create =
  cc_comment_text :: string
  cc_comment_type :: string
  cc_is_public :: bool
  cc_policy_document_id :: int

definition PolicyCommentCreate_keys :: "string list" where
  "PolicyCommentCreate_keys =
     [''comment_text'', ''comment_type'', ''is_public'', ''policy_document_id'']"

text \<open>
  The handler builds the row with
  \<^verbatim>\<open>PolicyComment(**comment.dict(), policy_document_id=document_id, commenter_id=...)\<close>;
  the payload schema has a field \<^verbatim>\<open>policy_document_id\<close> of its own.
\<close>

definition add_policy_comment ::
  "datetime \<Rightarrow> int \<Rightarrow> policy_comment_create \<Rightarrow> user \<Rightarrow> db \<Rightarrow> (error + policy_comment) \<times> db" where
  "add_policy_comment now document_id comment current_user d =
     (case db_query d (documents d) of
        Inl e \<Rightarrow> (Inl e, d)
      | Inr stored \<Rightarrow>
          (case find (\<lambda>doc. doc_id doc = document_id) stored of
             None \<Rightarrow> (Inl (HTTPException HTTP_404_NOT_FOUND ''Policy document not found''), d)
           | Some document \<Rightarrow>
               if duplicate_keyword PolicyCommentCreate_keys
                    [''policy_document_id'', ''commenter_id'']
               then (Inl TypeError, d)
               else
                 let db_comment =
                       \<lparr>com_id = next_id (map com_id (comments d)),
                        com_policy_document_id = document_id,
                        com_comment_text = cc_comment_text comment,
                        com_comment_type = cc_comment_type comment,
                        com_is_public = cc_is_public comment,
                        com_commenter_id = user_id current_user,
                        com_created_at = func_now now\<rparr>
                 in if \<not> in_INT (com_id db_comment) then (Inl IntegrityError, d)
                    else if length (com_comment_text db_comment) > 65535
                            \<or> length (com_comment_type db_comment) > 50
                    then (Inl DataError, d)
                    else
                      (case update_analytics CommentsCount document_id now (analytics d) of
                         Inl e \<Rightarrow> (Inl e, d)
                       | Inr analytics_rows \<Rightarrow>
                           (Inr db_comment,
                            d\<lparr>comments := comments d @ [db_comment],
                              analytics := analytics_rows\<rparr>))))"

definition get_policy_comments :: "int \<Rightarrow> int \<Rightarrow> int \<Rightarrow> db \<Rightarrow> error + policy_comment list" where
  "get_policy_comments document_id skip limit d =
     and_then (db_query d (comments d)) (\<lambda>stored.
       offset_limit skip limit
         (sort_key (\<lambda>c. - com_created_at c)
            (filter (\<lambda>c. com_policy_document_id c = document_id \<and> com_is_public c) stored)))"

section \<open>Listing, statistics and recommendations\<close>

text \<open>The listing validates every row it returns against the response schema.\<close>

definition PolicyDocumentResponse_list :: "policy_document list \<Rightarrow> error + policy_document list" where
  "PolicyDocumentResponse_list rows =
     (if list_ex (\<lambda>doc. PolicyDocumentResponse doc = Inl ResponseValidationError) rows
      then Inl ResponseValidationError else Inr rows)"

definition get_policy_documents ::
  "int \<Rightarrow> int \<Rightarrow> string option \<Rightarrow> string option \<Rightarrow> string option \<Rightarrow> string option \<Rightarrow>
   bool option \<Rightarrow> db \<Rightarrow> error + policy_document list" where
  "get_policy_documents skip limit document_type category department status is_public d =
     and_then (db_query d (documents d)) (\<lambda>stored.
      let q = stored;
          q = (if truthy document_type
               then filter (\<lambda>doc. Some (doc_document_type doc) = document_type) q else q);
          q = (if truthy category then filter (\<lambda>doc. Some (doc_category doc) = category) q else q);
          q = (if truthy department
               then filter (\<lambda>doc. Some (doc_department doc) = department) q else q);
          q = (if truthy status then filter (\<lambda>doc. doc_status doc = status) q else q);
          q = (if is_public \<noteq> None then filter (\<lambda>doc. doc_is_public doc = is_public) q else q)
      in and_then (offset_limit skip limit (sort_key (\<lambda>doc. - doc_created_at doc) q))
           PolicyDocumentResponse_list)"

record policy_stats =
  st_total_documents :: nat
  st_active_documents :: nat
  st_draft_documents :: nat
  st_documents_by_type :: "(string \<times> nat) list"
  st_documents_by_category :: "(string \<times> nat) list"
  st_documents_by_department :: "(string \<times> nat) list"
  st_recent_documents :: nat
  st_total_views :: int
  st_total_comments :: nat

text \<open>A \<^verbatim>\<open>GROUP BY\<close> count, one pair for each value of the column.\<close>

definition group_count :: "('a \<Rightarrow> string) \<Rightarrow> 'a list \<Rightarrow> (string \<times> nat) list" where
  "group_count column rows =
     map (\<lambda>k. (k, length (filter (\<lambda>r. column r = k) rows))) (remdups (map column rows))"

definition get_policy_stats :: "datetime \<Rightarrow> user \<Rightarrow> db \<Rightarrow> error + policy_stats" where
  "get_policy_stats now current_user d =
     (if \<not> privileged current_user
      then Inl (HTTPException HTTP_403_FORBIDDEN ''Not enough permissions'')
      else
        and_then (db_query d (documents d)) (\<lambda>stored.
        Inr \<lparr>st_total_documents = length stored,
             st_active_documents =
               length (filter (\<lambda>doc. doc_status doc = Some ''active'') stored),
             st_draft_documents =
               length (filter (\<lambda>doc. doc_status doc = Some ''draft'') stored),
             st_documents_by_type = group_count doc_document_type stored,
             st_documents_by_category = group_count doc_category stored,
             st_documents_by_department = group_count doc_department stored,
             st_recent_documents =
               length (filter (\<lambda>doc. doc_created_at doc \<ge> now - 30 * usec_per_day) stored),
             st_total_views = sum_list (map doc_view_count stored),
             st_total_comments = length (comments d)\<rparr>))"

record policy_recommendation =
  rec_policy_id :: int
  rec_title :: string
  rec_reason :: string
  rec_confidence_score :: rat
  rec_category :: string

function str_nat :: "nat \<Rightarrow> string" where
  "str_nat n = (if n < 10 then [char_of (48 + n)] else str_nat (n div 10) @ [char_of (48 + n mod 10)])"
  by pat_completeness auto
termination
  by (relation "measure id") auto

definition str_int :: "int \<Rightarrow> string" where
  "str_int i = (if i < 0 then ''-'' @ str_nat (nat (- i)) else str_nat (nat i))"

definition get_policy_recommendations ::
  "string option \<Rightarrow> int \<Rightarrow> user \<Rightarrow> db \<Rightarrow> error + policy_recommendation list" where
  "get_policy_recommendations category limit current_user d =
     and_then (db_query d (documents d)) (\<lambda>stored.
      let q = filter (\<lambda>doc. doc_status doc = Some ''active'' \<and> doc_is_public doc = Some True)
                stored;
          q = (if truthy category then filter (\<lambda>doc. Some (doc_category doc) = category) q else q)
      in and_then (offset_limit 0 limit (sort_key (\<lambda>doc. - doc_view_count doc) q))
           (\<lambda>popular_policies.
              Inr (map (\<lambda>policy.
                     \<lparr>rec_policy_id = doc_id policy, rec_title = doc_title policy,
                      rec_reason =
                        ''Popular policy in '' @ doc_category policy @ '' with ''
                        @ str_int (doc_view_count policy) @ '' views'',
                      rec_confidence_score = min 1 (of_int (doc_view_count policy) / 100),
                      rec_category = doc_category policy\<rparr>) popular_policies)))"

section \<open>The analytics report\<close>

record policy_analytics_report =
  rep_policy_id :: int
  rep_policy_title :: string
  rep_period_start :: datetime
  rep_period_end :: datetime
  rep_total_views :: int
  rep_total_downloads :: int
  rep_total_comments :: int
  rep_total_citations :: int
  rep_search_appearances :: int
  rep_engagement_score :: rat
  rep_trending_keywords :: "string list"

text \<open>\<^verbatim>\<open>(end_date - start_date).days or 1\<close>: the value of \<^verbatim>\<open>x or 1\<close> is \<open>x\<close> unless \<open>x\<close> is zero.\<close>

definition days_in_period :: "datetime \<Rightarrow> datetime \<Rightarrow> int" where
  "days_in_period start_date end_date =
     (let days = timedelta_days end_date start_date in if days \<noteq> 0 then days else 1)"

fun split_sep :: "char \<Rightarrow> string \<Rightarrow> string list" where
  "split_sep sep [] = [[]]"
| "split_sep sep (c # cs) =
     (if c = sep then [] # split_sep sep cs
      else (case split_sep sep cs of [] \<Rightarrow> [[c]] | w # ws \<Rightarrow> (c # w) # ws))"

text \<open>
  The quotient of two integers is a floating-point number in the source; the model keeps
  the exact rational, of which the float is the nearest representable value.
\<close>

definition get_policy_analytics ::
  "int \<Rightarrow> datetime \<Rightarrow> datetime \<Rightarrow> user \<Rightarrow> db \<Rightarrow> error + policy_analytics_report" where
  "get_policy_analytics document_id start_date end_date current_user d =
     (if \<not> privileged current_user
      then Inl (HTTPException HTTP_403_FORBIDDEN ''Not enough permissions'')
      else
        and_then (db_query d (documents d)) (\<lambda>stored.
        case find (\<lambda>doc. doc_id doc = document_id) stored of
          None \<Rightarrow> Inl (HTTPException HTTP_404_NOT_FOUND ''Policy document not found'')
        | Some document \<Rightarrow>
            let analytics_data =
                  filter (\<lambda>a. an_policy_document_id a = document_id
                              \<and> an_analytics_date a \<ge> start_date
                              \<and> an_analytics_date a \<le> end_date) (analytics d);
                total_views = sum_list (map an_views analytics_data);
                total_downloads = sum_list (map an_downloads analytics_data);
                total_comments = sum_list (map an_comments_count analytics_data);
                total_citations = sum_list (map an_citations_count analytics_data);
                search_appearances = sum_list (map an_search_appearances analytics_data);
                engagement_score =
                  of_int (total_views + total_comments * 5 + total_citations * 10)
                  / of_int (days_in_period start_date end_date);
                trending_keywords =
                  (case doc_keywords document of
                     None \<Rightarrow> []
                   | Some keywords \<Rightarrow>
                       if keywords \<noteq> [] then take 5 (split_sep CHR '','' keywords) else [])
            in Inr \<lparr>rep_policy_id = document_id, rep_policy_title = doc_title document,
                    rep_period_start = start_date, rep_period_end = end_date,
                    rep_total_views = total_views, rep_total_downloads = total_downloads,
                    rep_total_comments = total_comments, rep_total_citations = total_citations,
                    rep_search_appearances = search_appearances,
                    rep_engagement_score = engagement_score,
                    rep_trending_keywords = trending_keywords\<rparr>))"

section \<open>The module as a state machine\<close>

text \<open>
  One request to the router and the state it leaves. A handler that raises before its
  commit leaves the state as it was; the handlers that list, count, report and recommend
  return a value and never write.
\<close>

datatype request =
    CreateDocument policy_document_create user
  | SearchDocuments string int int "string option" "string option" "string option" "string option"
  | ListDocuments int int "string option" "string option" "string option" "string option"
      "bool option"
  | ReadDocument int
  | UpdateDocument int policy_document_update user
  | AddComment int policy_comment_create user
  | ListComments int int int
  | Stats user
  | Analytics int datetime datetime user
  | Recommendations "string option" int user

definition committed :: "error + ('a \<times> db) \<Rightarrow> db \<Rightarrow> db" where
  "committed outcome d = (case outcome of Inl e \<Rightarrow> d | Inr (x, d') \<Rightarrow> d')"

fun dispatch :: "datetime \<Rightarrow> request \<Rightarrow> db \<Rightarrow> db" where
  "dispatch now (CreateDocument document u) d = snd (create_policy_document now document u d)"
| "dispatch now (SearchDocuments query skip limit document_type category department status) d =
     committed
       (search_policy_documents now query skip limit document_type category department status d) d"
| "dispatch now (ListDocuments skip limit document_type category department status is_public) d = d"
| "dispatch now (ReadDocument document_id) d = snd (get_policy_document now document_id d)"
| "dispatch now (UpdateDocument document_id document_update u) d =
     snd (update_policy_document document_id document_update u d)"
| "dispatch now (AddComment document_id comment u) d =
     snd (add_policy_comment now document_id comment u d)"
| "dispatch now (ListComments document_id skip limit) d = d"
| "dispatch now (Stats u) d = d"
| "dispatch now (Analytics document_id start_date end_date u) d = d"
| "dispatch now (Recommendations category limit u) d = d"

text \<open>A run of reads of one document, one at each of the given times.\<close>

fun view_events :: "datetime list \<Rightarrow> int \<Rightarrow> db \<Rightarrow> db" where
  "view_events [] document_id d = d"
| "view_events (t # ts) document_id d =
     view_events ts document_id (dispatch t (ReadDocument document_id) d)"

section \<open>Vocabulary of the properties\<close>

text \<open>
  The three relevance tiers as the specification words them: a document is matched in
  its title, in its summary or in its content when the column matches the pattern made
  from the query.
\<close>

definition title_hit :: "string \<Rightarrow> policy_document \<Rightarrow> bool" where
  "title_hit query doc = ilike (doc_title doc) (contains_pattern query)"

definition summary_hit :: "string \<Rightarrow> policy_document \<Rightarrow> bool" where
  "summary_hit query doc = ilike (doc_summary doc) (contains_pattern query)"

definition content_hit :: "string \<Rightarrow> policy_document \<Rightarrow> bool" where
  "content_hit query doc = ilike (doc_content doc) (contains_pattern query)"

text \<open>
  The documents a search may return: public, and equal to each filter that is in force
  (a filter that is absent or empty is not in force).
\<close>

definition in_force :: "string option \<Rightarrow> string option \<Rightarrow> bool" where
  "in_force filter_value column = (if truthy filter_value then column = filter_value else True)"

definition eligible ::
  "string option \<Rightarrow> string option \<Rightarrow> string option \<Rightarrow> string option \<Rightarrow> policy_document \<Rightarrow> bool"
where
  "eligible document_type category department status doc =
     (doc_is_public doc = Some True \<and> in_force status (doc_status doc)
      \<and> in_force document_type (Some (doc_document_type doc))
      \<and> in_force category (Some (doc_category doc))
      \<and> in_force department (Some (doc_department doc)))"

text \<open>
  The tiers of the specification, each exclusive of the higher ones: Tier A is the
  documents matched in the title, Tier B those matched in the summary and not in the
  title, Tier C those matched in the content and in neither title nor summary.
\<close>

definition tier_a :: "string \<Rightarrow> policy_document list \<Rightarrow> policy_document list" where
  "tier_a query docs = filter (title_hit query) docs"

definition tier_b :: "string \<Rightarrow> policy_document list \<Rightarrow> policy_document list" where
  "tier_b query docs = filter (\<lambda>doc. summary_hit query doc \<and> \<not> title_hit query doc) docs"

definition tier_c :: "string \<Rightarrow> policy_document list \<Rightarrow> policy_document list" where
  "tier_c query docs =
     filter (\<lambda>doc. content_hit query doc \<and> \<not> title_hit query doc \<and> \<not> summary_hit query doc) docs"

text \<open>
  The page of the specification, as ids with their scores: up to \<open>limit\<close> documents of
  Tier A after the offset, then the slots left filled from the head of Tier B, then the
  slots still left from the head of Tier C.
\<close>

definition search_page ::
  "string \<Rightarrow> nat \<Rightarrow> nat \<Rightarrow> policy_document list \<Rightarrow> (int \<times> rat option) list" where
  "search_page query offset limit docs =
     (let a = take limit (drop offset (tier_a query docs));
          b = take (limit - length a) (tier_b query docs);
          c = take (limit - length a - length b) (tier_c query docs)
      in map (\<lambda>doc. (doc_id doc, Some 1)) a
         @ map (\<lambda>doc. (doc_id doc, Some (7 / 10))) b
         @ map (\<lambda>doc. (doc_id doc, Some (1 / 2))) c)"

text \<open>The three runs of rows the handler reads, and the row each result is built from.\<close>

definition page_tier_a :: "string \<Rightarrow> int \<Rightarrow> int \<Rightarrow> policy_document list \<Rightarrow> policy_document list" where
  "page_tier_a query skip limit base =
     take (nat limit) (drop (nat skip) (title_matches query base))"

definition page_tier_b :: "string \<Rightarrow> int \<Rightarrow> int \<Rightarrow> policy_document list \<Rightarrow> policy_document list" where
  "page_tier_b query skip limit base =
     take (nat limit - length (page_tier_a query skip limit base)) (summary_matches query base)"

definition page_tier_c :: "string \<Rightarrow> int \<Rightarrow> int \<Rightarrow> policy_document list \<Rightarrow> policy_document list" where
  "page_tier_c query skip limit base =
     take (nat limit - length (page_tier_a query skip limit base)
             - length (page_tier_b query skip limit base)) (content_matches query base)"

definition scored_rows ::
  "string \<Rightarrow> int \<Rightarrow> int \<Rightarrow> policy_document list \<Rightarrow> (policy_document \<times> rat) list" where
  "scored_rows query skip limit base =
     map (\<lambda>d. (d, 1)) (page_tier_a query skip limit base)
     @ map (\<lambda>d. (d, 7 / 10)) (page_tier_b query skip limit base)
     @ map (\<lambda>d. (d, 1 / 2)) (page_tier_c query skip limit base)"

definition result_of :: "policy_document \<times> rat \<Rightarrow> policy_search_result \<Rightarrow> bool" where
  "result_of ds r = (PolicySearchResult (fst ds) (snd ds) = Inr r)"

text \<open>The view counter of the document with a given id, and the views booked for it on a day.\<close>

definition view_count_of :: "db \<Rightarrow> int \<Rightarrow> int option" where
  "view_count_of d i = map_option doc_view_count (find (\<lambda>doc. doc_id doc = i) (documents d))"

definition views_on :: "db \<Rightarrow> int \<Rightarrow> int \<Rightarrow> int" where
  "views_on d i day = sum_list (map an_views (filter (same_day i day) (analytics d)))"


text \<open>
  The day on which a view of document \<open>i\<close> at time \<open>now\<close> is booked: today when the
  document has a row of today, else the day of the stamp of the new row.
\<close>

definition view_day :: "datetime \<Rightarrow> int \<Rightarrow> db \<Rightarrow> int" where
  "view_day now i d =
     (case find (same_day i (date_of now)) (analytics d) of
        Some a \<Rightarrow> date_of now
      | None \<Rightarrow> date_of (to_DATETIME now))"

text \<open>
  A read that answers with the document, a read that commits (it answers with the
  document, or its answer fails the response schema after the commit), and a run of reads
  that all answer with the document.
\<close>

definition read_succeeds :: "datetime \<Rightarrow> int \<Rightarrow> db \<Rightarrow> bool" where
  "read_succeeds now i d =
     (case fst (get_policy_document now i d) of Inr document \<Rightarrow> True | Inl e \<Rightarrow> False)"

definition read_commits :: "datetime \<Rightarrow> int \<Rightarrow> db \<Rightarrow> bool" where
  "read_commits now i d =
     (case fst (get_policy_document now i d) of
        Inr document \<Rightarrow> True
      | Inl e \<Rightarrow> e = ResponseValidationError)"

fun reads_succeed :: "datetime list \<Rightarrow> int \<Rightarrow> db \<Rightarrow> bool" where
  "reads_succeed [] i d = True"
| "reads_succeed (t # ts) i d =
     (read_succeeds t i d \<and> reads_succeed ts i (snd (get_policy_document t i d)))"

text \<open>The caller may edit the document: an administrator, or its creator.\<close>

definition may_edit :: "user \<Rightarrow> policy_document \<Rightarrow> bool" where
  "may_edit u doc = (user_role u = ''admin'' \<or> doc_created_by doc = user_id u)"


section \<open>Example data\<close>

text \<open>
  The registry of \<^verbatim>\<open>models.py\<close> with \<^verbatim>\<open>PolicyDocument.citations\<close> declared on its
  foreign key, as its counterpart \<^verbatim>\<open>PolicyCitation.citing_document\<close> is. A session of
  the examples carries the registry of \<^verbatim>\<open>models.py\<close> unless it is \<open>configured\<close>.
\<close>

definition keyed_models_py :: registry where
  "keyed_models_py =
     models_py\<lparr>reg_relationships :=
       map (\<lambda>r. if rel_class r = ''PolicyDocument'' \<and> rel_name r = ''citations''
                 then r\<lparr>rel_foreign_keys := Some [''citing_document_id'']\<rparr> else r)
         (reg_relationships models_py)\<rparr>"

definition configured :: "db \<Rightarrow> db" where
  "configured d = d\<lparr>mappers := keyed_models_py\<rparr>"

definition doc0 :: policy_document where
  "doc0 =
     \<lparr>doc_id = 0, doc_title = [], doc_document_number = [], doc_document_type = ''law'',
      doc_category = ''environment'', doc_department = ''water'', doc_summary = [],
      doc_content = [], doc_keywords = None, doc_effective_date = 0, doc_expiry_date = None,
      doc_status = Some ''active'', doc_version = ''1.0'', doc_language = ''en'',
      doc_file_url = None, doc_created_by = 1, doc_reviewed_by = None,
      doc_is_public = Some True, doc_view_count = 0, doc_created_at = 0\<rparr>"

definition ex_docs :: "policy_document list" where
  "ex_docs =
     [doc0\<lparr>doc_id := 1, doc_title := ''Water Act'', doc_document_number := ''WCA-001'',
           doc_summary := ''rivers'', doc_content := ''dams''\<rparr>,
      doc0\<lparr>doc_id := 2, doc_title := ''Fire Act'', doc_document_number := ''FA-002'',
           doc_summary := ''no water'', doc_content := ''smoke''\<rparr>,
      doc0\<lparr>doc_id := 3, doc_title := ''Air Act'', doc_document_number := ''AA-003'',
           doc_summary := ''wind'', doc_content := ''WATER vapour''\<rparr>,
      doc0\<lparr>doc_id := 4, doc_title := ''Soil Act'', doc_document_number := ''SA-004'',
           doc_summary := ''sand'', doc_content := ''clay'',
           doc_keywords := Some ''water,earth''\<rparr>]"

definition ex_db :: db where
  "ex_db = \<lparr>documents = ex_docs, analytics = [], comments = [], mappers = keyed_models_py\<rparr>"

definition ex_hit :: "int \<Rightarrow> string \<Rightarrow> string \<Rightarrow> string \<Rightarrow> rat \<Rightarrow> policy_search_result" where
  "ex_hit i title number summary score =
     \<lparr>res_id = i, res_title = title, res_document_number = number,
      res_document_type = ''law'', res_category = ''environment'', res_department = ''water'',
      res_summary = summary, res_effective_date = 0, res_status = ''active'',
      res_relevance_score = Some score\<rparr>"

text \<open>The row a first search appearance of the day at time \<open>now\<close> leaves.\<close>

definition ex_appearance :: "int \<Rightarrow> int \<Rightarrow> datetime \<Rightarrow> policy_analytics" where
  "ex_appearance i document_id now =
     \<lparr>an_id = i, an_policy_document_id = document_id, an_analytics_date = to_DATETIME now,
      an_views = 0, an_downloads = 0, an_comments_count = 0, an_citations_count = 0,
      an_search_appearances = 1\<rparr>"

text \<open>
  Six documents for a page: two matched by \<^verbatim>\<open>water\<close> in the title, one in the summary,
  two in the content, one in the keywords only.
\<close>

definition page_docs :: "policy_document list" where
  "page_docs =
     [doc0\<lparr>doc_id := 1, doc_title := ''Water Act'', doc_document_number := ''P-1''\<rparr>,
      doc0\<lparr>doc_id := 2, doc_title := ''Waterways Act'', doc_document_number := ''P-2''\<rparr>,
      doc0\<lparr>doc_id := 3, doc_title := ''Fire Act'', doc_document_number := ''P-3'',
           doc_summary := ''no water''\<rparr>,
      doc0\<lparr>doc_id := 4, doc_title := ''Air Act'', doc_document_number := ''P-4'',
           doc_content := ''water vapour''\<rparr>,
      doc0\<lparr>doc_id := 5, doc_title := ''Ice Act'', doc_document_number := ''P-5'',
           doc_content := ''frozen water''\<rparr>,
      doc0\<lparr>doc_id := 6, doc_title := ''Soil Act'', doc_document_number := ''P-6'',
           doc_keywords := Some ''water,earth''\<rparr>]"

definition page_db :: db where
  "page_db = \<lparr>documents = page_docs, analytics = [], comments = [], mappers = keyed_models_py\<rparr>"

definition page_results :: "policy_search_result list" where
  "page_results =
     [ex_hit 2 ''Waterways Act'' ''P-2'' [] 1, ex_hit 3 ''Fire Act'' ''P-3'' ''no water'' (7 / 10),
      ex_hit 4 ''Air Act'' ''P-4'' [] (1 / 2)]"

definition admin :: user where
  "admin = \<lparr>user_id = 7, user_role = ''admin''\<rparr>"

definition official :: user where
  "official = \<lparr>user_id = 1, user_role = ''government_official''\<rparr>"



definition water_act :: policy_document where
  "water_act = doc0\<lparr>doc_id := 1, doc_title := ''Water Act'', doc_document_number := ''WCA-001''\<rparr>"

definition one_doc_db :: db where
  "one_doc_db = \<lparr>documents = [water_act], analytics = [], comments = [], mappers = models_py\<rparr>"


text \<open>A document whose view counter has reached the end of the range of its column.\<close>

definition full_db :: db where
  "full_db =
     \<lparr>documents = [water_act\<lparr>doc_view_count := INT_MAX\<rparr>], analytics = [], comments = [],
      mappers = keyed_models_py\<rparr>"

definition noon :: datetime where
  "noon = 43200000000"



definition title_update :: policy_document_update where
  "title_update =
     \<lparr>upd_title = Some (Some ''Water Law''), upd_summary = None, upd_content = None,
      upd_keywords = None, upd_expiry_date = None, upd_status = None, upd_file_url = None,
      upd_is_public = None\<rparr>"

text \<open>
  Two payloads the creator of the document may send: a title of 501 characters, and
  \<^verbatim>\<open>null\<close> for the status.
\<close>

definition long_title_update :: policy_document_update where
  "long_title_update = title_update\<lparr>upd_title := Some (Some (replicate 501 CHR ''a''))\<rparr>"

definition null_status_update :: policy_document_update where
  "null_status_update = title_update\<lparr>upd_title := None, upd_status := Some None\<rparr>"

text \<open>A time in the last half second of day 0.\<close>

definition last_instant :: datetime where
  "last_instant = usec_per_day - 300000"

definition water_payload :: policy_document_create where
  "water_payload =
     \<lparr>new_title = ''Water Act'', new_document_number = ''WCA-001'',
      new_document_type = ''law'', new_category = ''environment'', new_department = ''water'',
      new_summary = [], new_content = [], new_keywords = None, new_effective_date = 0,
      new_expiry_date = None, new_version = ''1.0'', new_language = ''en'',
      new_file_url = None, new_is_public = True\<rparr>"



section \<open>The registry of the module\<close>

lemma models_py_ambiguous:
  "configure_mappers models_py = Some (AmbiguousForeignKeysError ''PolicyDocument.citations'')"
  by code_simp

lemma keyed_models_py_configures: "configure_mappers keyed_models_py = None"
  by code_simp

lemma configure_relationship_error:
  "configure_relationship reg r = Some e \<Longrightarrow>
   (\<exists>name. e = AmbiguousForeignKeysError name) \<or> (\<exists>name. e = NoForeignKeysError name)"
  by (cases "rel_foreign_keys r"; cases "join_keys reg r" rule: remdups_adj.cases)
    (auto simp: configure_relationship_def)

lemma configure_mappers_error:
  assumes "configure_mappers reg = Some e"
  shows "(\<exists>name. e = AmbiguousForeignKeysError name) \<or> (\<exists>name. e = NoForeignKeysError name)"
proof -
  from assms have "e \<in> set (List.map_filter (configure_relationship reg) (reg_relationships reg))"
    by (auto simp: configure_mappers_def split: list.splits)
  then obtain r where "configure_relationship reg r = Some e"
    by (auto simp: List.map_filter_def)
  then show ?thesis by (rule configure_relationship_error)
qed

lemma db_query_Inr:
  "db_query d rows = Inr rows' \<Longrightarrow> rows' = rows \<and> configure_mappers (mappers d) = None"
  by (auto simp: db_query_def split: option.splits)

lemma db_query_configured: "configure_mappers (mappers d) = None \<Longrightarrow> db_query d rows = Inr rows"
  by (simp add: db_query_def)

lemma db_query_Inl:
  "db_query d rows = Inl e \<Longrightarrow> configure_mappers (mappers d) = Some e"
  by (auto simp: db_query_def split: option.splits)

text \<open>
  With the registry of \<^verbatim>\<open>models.py\<close> every handler raises at its first query. The
  handlers that check the role of the caller first refuse a caller without the role
  before that.
\<close>

lemma query_as_declared:
  "mappers d = models_py \<Longrightarrow>
   db_query d rows = Inl (AmbiguousForeignKeysError ''PolicyDocument.citations'')"
  by (simp add: db_query_def models_py_ambiguous)

lemma handlers_as_declared:
  assumes "mappers d = models_py"
  shows "search_policy_documents now query skip limit document_type category department status d
           = Inl (AmbiguousForeignKeysError ''PolicyDocument.citations'')"
    and "get_policy_documents skip limit document_type category department status is_public d
           = Inl (AmbiguousForeignKeysError ''PolicyDocument.citations'')"
    and "get_policy_document now i d
           = (Inl (AmbiguousForeignKeysError ''PolicyDocument.citations''), d)"
    and "add_policy_comment now i comment u d
           = (Inl (AmbiguousForeignKeysError ''PolicyDocument.citations''), d)"
    and "get_policy_comments i skip limit d
           = Inl (AmbiguousForeignKeysError ''PolicyDocument.citations'')"
    and "get_policy_recommendations category limit u d
           = Inl (AmbiguousForeignKeysError ''PolicyDocument.citations'')"
    and "privileged u \<Longrightarrow> create_policy_document now document u d
           = (Inl (AmbiguousForeignKeysError ''PolicyDocument.citations''), d)"
    and "privileged u \<Longrightarrow> update_policy_document i upd u d
           = (Inl (AmbiguousForeignKeysError ''PolicyDocument.citations''), d)"
    and "privileged u \<Longrightarrow> get_policy_stats now u d
           = Inl (AmbiguousForeignKeysError ''PolicyDocument.citations'')"
    and "privileged u \<Longrightarrow> get_policy_analytics i start_date end_date u d
           = Inl (AmbiguousForeignKeysError ''PolicyDocument.citations'')"
  by (simp_all add: search_policy_documents_def get_policy_documents_def get_policy_document_def
      add_policy_comment_def get_policy_comments_def get_policy_recommendations_def
      create_policy_document_def update_policy_document_def get_policy_stats_def
      get_policy_analytics_def and_then_def query_as_declared [OF assms])

lemma unprivileged_as_declared:
  assumes "\<not> privileged u"
  shows "create_policy_document now document u d
           = (Inl (HTTPException HTTP_403_FORBIDDEN ''Not enough permissions''), d)"
    and "update_policy_document i upd u d
           = (Inl (HTTPException HTTP_403_FORBIDDEN ''Not enough permissions''), d)"
    and "get_policy_stats now u d
           = Inl (HTTPException HTTP_403_FORBIDDEN ''Not enough permissions'')"
    and "get_policy_analytics i start_date end_date u d
           = Inl (HTTPException HTTP_403_FORBIDDEN ''Not enough permissions'')"
  using assms
  by (simp_all add: create_policy_document_def update_policy_document_def get_policy_stats_def
      get_policy_analytics_def)

section \<open>Search: what a successful call returns\<close>

text \<open>
  A search that returns ran on a session whose mappers configure; the examples of the
  claims about the result list therefore use a configured session.
\<close>


lemma append_results_Inr:
  "append_results s rows acc = Inr rs \<Longrightarrow>
   \<exists>rs'. rs = acc @ rs' \<and> list_all2 result_of (map (\<lambda>d. (d, s)) rows) rs'"
proof (induction rows arbitrary: acc)
  case Nil
  then show ?case by simp
next
  case (Cons doc rows)
  from Cons.prems obtain r where r: "PolicySearchResult doc s = Inr r"
    and rest: "append_results s rows (acc @ [r]) = Inr rs"
    by (auto split: sum.splits)
  from Cons.IH [OF rest] obtain rs' where "rs = (acc @ [r]) @ rs'"
    and "list_all2 result_of (map (\<lambda>d. (d, s)) rows) rs'" by blast
  moreover have "result_of (doc, s) r" using r by (simp add: result_of_def)
  ultimately show ?case by simp
qed

lemma append_results_length:
  "append_results s rows acc = Inr rs \<Longrightarrow> length rs = length acc + length rows"
  by (induction rows arbitrary: acc) (auto split: sum.splits)

lemma search_configured:
  assumes "search_policy_documents now query skip limit document_type category department status d
             = Inr (results, d')"
  shows "configure_mappers (mappers d) = None"
proof (cases "db_query d (documents d)")
  case (Inl e)
  with assms show ?thesis by (simp add: search_policy_documents_def and_then_def)
next
  case (Inr rows)
  then show ?thesis by (simp add: db_query_Inr)
qed

lemma search_shape:
  assumes "search_policy_documents now query skip limit document_type category department status d
             = Inr (results, d')"
  shows "0 \<le> skip \<and> 0 \<le> limit \<and>
         list_all2 result_of
           (scored_rows query skip limit (base_query document_type category department status (documents d)))
           results"
proof -
  define base where "base = base_query document_type category department status (documents d)"
  have q: "db_query d (documents d) = Inr (documents d)"
    using search_configured [OF assms] by (rule db_query_configured)
  from assms have nonneg: "0 \<le> skip" "0 \<le> limit"
    unfolding search_policy_documents_def q
    by (auto simp: and_then_def offset_limit_def Let_def split: if_splits)
  define A where "A = page_tier_a query skip limit base"
  define B where "B = page_tier_b query skip limit base"
  define C where "C = page_tier_c query skip limit base"
  have ol: "offset_limit skip limit (title_matches query base) = Inr A"
    using nonneg by (simp add: offset_limit_def A_def page_tier_a_def)
  from assms obtain r1 r2 where
    r1: "append_results 1 A [] = Inr r1" and
    r2: "(if limit - int (length r1) > 0
          then append_results (7 / 10) (take (nat (limit - int (length r1))) (summary_matches query base)) r1
          else Inr r1) = Inr r2" and
    r3: "(if limit - int (length r2) > 0
          then append_results (1 / 2) (take (nat (limit - int (length r2))) (content_matches query base)) r2
          else Inr r2) = Inr results"
    unfolding search_policy_documents_def q and_then_def Let_def sum.case base_def [symmetric] ol
    by (auto split: sum.splits)
  have l1: "length r1 = length A" using append_results_length [OF r1] by simp
  have nB: "nat (limit - int (length r1)) = nat limit - length A"
    using nonneg l1 by simp
  from append_results_Inr [OF r1] have a1: "list_all2 result_of (map (\<lambda>d. (d, 1)) A) r1" by simp
  have b1: "\<exists>rb. r2 = r1 @ rb \<and> list_all2 result_of (map (\<lambda>d. (d, 7 / 10)) B) rb"
  proof (cases "limit - int (length r1) > 0")
    case True
    with r2 have "append_results (7 / 10) B r1 = Inr r2"
      by (simp add: B_def page_tier_b_def nB A_def)
    from append_results_Inr [OF this] show ?thesis .
  next
    case False
    then have "B = []" using nonneg l1 by (simp add: B_def page_tier_b_def A_def)
    with False r2 show ?thesis by simp
  qed
  then obtain rb where rb: "r2 = r1 @ rb" "list_all2 result_of (map (\<lambda>d. (d, 7 / 10)) B) rb" by blast
  have l2: "length r2 = length A + length B"
    using rb l1 by (auto dest: list_all2_lengthD)
  have nC: "nat (limit - int (length r2)) = nat limit - length A - length B"
    using nonneg l2 by simp
  have c1: "\<exists>rc. results = r2 @ rc \<and> list_all2 result_of (map (\<lambda>d. (d, 1 / 2)) C) rc"
  proof (cases "limit - int (length r2) > 0")
    case True
    with r3 have "append_results (1 / 2) C r2 = Inr results"
      by (simp add: C_def page_tier_c_def nC A_def B_def)
    from append_results_Inr [OF this] show ?thesis .
  next
    case False
    then have "C = []" using nonneg l2 by (simp add: C_def page_tier_c_def A_def B_def)
    with False r3 show ?thesis by simp
  qed
  then obtain rc where rc: "results = r2 @ rc" "list_all2 result_of (map (\<lambda>d. (d, 1 / 2)) C) rc" by blast
  have "list_all2 result_of (scored_rows query skip limit base) results"
    unfolding scored_rows_def A_def [symmetric] B_def [symmetric] C_def [symmetric] rc(1) rb(1)
    using a1 rb(2) rc(2) by (simp add: list_all2_appendI)
  with nonneg show ?thesis by (simp add: base_def)
qed

lemma base_query_subset:
  "set (base_query document_type category department status rows) \<subseteq> set rows"
  by (auto simp: base_query_def Let_def)

lemma base_query_public:
  "doc \<in> set (base_query document_type category department status rows) \<Longrightarrow>
   doc_is_public doc = Some True"
  by (auto simp: base_query_def Let_def split: if_splits)

lemma base_query_status:
  "doc \<in> set (base_query document_type category department status rows) \<Longrightarrow>
   truthy status \<Longrightarrow> doc_status doc = status"
  by (auto simp: base_query_def Let_def split: if_splits)

lemma base_query_member:
  assumes "doc \<in> set rows" "doc_is_public doc = Some True"
    and "truthy status \<Longrightarrow> doc_status doc = status"
    and "truthy document_type \<Longrightarrow> Some (doc_document_type doc) = document_type"
    and "truthy category \<Longrightarrow> Some (doc_category doc) = category"
    and "truthy department \<Longrightarrow> Some (doc_department doc) = department"
  shows "doc \<in> set (base_query document_type category department status rows)"
  using assms by (auto simp: base_query_def Let_def)

lemma page_tier_a_set:
  "doc \<in> set (page_tier_a query skip limit base) \<Longrightarrow> doc \<in> set base \<and> title_hit query doc"
  by (auto simp: page_tier_a_def title_matches_def search_query_def title_hit_def
      dest!: in_set_takeD in_set_dropD)

lemma page_tier_b_set:
  "doc \<in> set (page_tier_b query skip limit base) \<Longrightarrow>
   doc \<in> set base \<and> \<not> title_hit query doc \<and> summary_hit query doc"
  by (auto simp: page_tier_b_def summary_matches_def search_query_def title_hit_def summary_hit_def
      dest!: in_set_takeD)

lemma page_tier_c_set:
  "doc \<in> set (page_tier_c query skip limit base) \<Longrightarrow>
   doc \<in> set base \<and> \<not> title_hit query doc \<and> \<not> summary_hit query doc \<and> content_hit query doc"
  by (auto simp: page_tier_c_def content_matches_def search_query_def title_hit_def summary_hit_def
      content_hit_def dest!: in_set_takeD)

lemma scored_rows_set:
  "set (scored_rows query skip limit base) =
     (\<lambda>d. (d, 1)) ` set (page_tier_a query skip limit base)
     \<union> (\<lambda>d. (d, 7 / 10)) ` set (page_tier_b query skip limit base)
     \<union> (\<lambda>d. (d, 1 / 2)) ` set (page_tier_c query skip limit base)"
  by (simp add: scored_rows_def Un_assoc)

lemma scored_rows_tier:
  assumes "(doc, s) \<in> set (scored_rows query skip limit base)"
  shows "doc \<in> set base \<and>
         (s = 1 \<and> title_hit query doc
          \<or> s = 7 / 10 \<and> \<not> title_hit query doc \<and> summary_hit query doc
          \<or> s = 1 / 2 \<and> \<not> title_hit query doc \<and> \<not> summary_hit query doc \<and> content_hit query doc)"
proof -
  from assms consider
      (a) "s = 1" "doc \<in> set (page_tier_a query skip limit base)"
    | (b) "s = 7 / 10" "doc \<in> set (page_tier_b query skip limit base)"
    | (c) "s = 1 / 2" "doc \<in> set (page_tier_c query skip limit base)"
    unfolding scored_rows_set by blast
  then show ?thesis
  proof cases
    case a
    then show ?thesis using page_tier_a_set [of doc query skip limit base] by simp
  next
    case b
    then show ?thesis using page_tier_b_set [of doc query skip limit base] by simp
  next
    case c
    then show ?thesis using page_tier_c_set [of doc query skip limit base] by simp
  qed
qed

lemma distinct_map_take_drop:
  "distinct (map f xs) \<Longrightarrow> distinct (map f (take n (drop m (filter P xs))))"
  by (metis distinct_drop distinct_map_filter distinct_take drop_map take_map)

lemma distinct_map_take:
  "distinct (map f xs) \<Longrightarrow> distinct (map f (take n (filter P xs)))"
  by (metis distinct_map_filter distinct_take take_map)

lemma page_tier_a_distinct:
  "distinct (map doc_id base) \<Longrightarrow> distinct (map doc_id (page_tier_a query skip limit base))"
  unfolding page_tier_a_def title_matches_def search_query_def filter_filter
  by (rule distinct_map_take_drop)

lemma page_tier_b_distinct:
  "distinct (map doc_id base) \<Longrightarrow> distinct (map doc_id (page_tier_b query skip limit base))"
  unfolding page_tier_b_def summary_matches_def search_query_def filter_filter
  by (rule distinct_map_take)

lemma page_tier_c_distinct:
  "distinct (map doc_id base) \<Longrightarrow> distinct (map doc_id (page_tier_c query skip limit base))"
  unfolding page_tier_c_def content_matches_def search_query_def filter_filter
  by (rule distinct_map_take)

lemma same_id_same_row:
  "distinct (map doc_id base) \<Longrightarrow> a \<in> set base \<Longrightarrow> b \<in> set base \<Longrightarrow> doc_id a = doc_id b \<Longrightarrow> a = b"
  by (meson distinct_map inj_onD)

lemma scored_rows_ids:
  "map (\<lambda>ds. doc_id (fst ds)) (scored_rows query skip limit base) =
   map doc_id (page_tier_a query skip limit base) @ map doc_id (page_tier_b query skip limit base)
   @ map doc_id (page_tier_c query skip limit base)"
  by (simp add: scored_rows_def comp_def)

lemma scored_rows_distinct:
  assumes "distinct (map doc_id base)"
  shows "distinct (map (\<lambda>ds. doc_id (fst ds)) (scored_rows query skip limit base))"
proof -
  have ab: "doc_id a \<noteq> doc_id b"
    if "a \<in> set (page_tier_a query skip limit base)" "b \<in> set (page_tier_b query skip limit base)" for a b
    using that assms same_id_same_row page_tier_a_set page_tier_b_set by blast
  have ac: "doc_id a \<noteq> doc_id c"
    if "a \<in> set (page_tier_a query skip limit base)" "c \<in> set (page_tier_c query skip limit base)" for a c
    using that assms same_id_same_row page_tier_a_set page_tier_c_set by blast
  have bc: "doc_id b \<noteq> doc_id c"
    if "b \<in> set (page_tier_b query skip limit base)" "c \<in> set (page_tier_c query skip limit base)" for b c
    using that assms same_id_same_row page_tier_b_set page_tier_c_set by blast
  have "doc_id ` set (page_tier_a query skip limit base)
          \<inter> doc_id ` set (page_tier_b query skip limit base) = {}"
    using ab by blast
  moreover have "doc_id ` set (page_tier_a query skip limit base)
          \<inter> doc_id ` set (page_tier_c query skip limit base) = {}"
    using ac by blast
  moreover have "doc_id ` set (page_tier_b query skip limit base)
          \<inter> doc_id ` set (page_tier_c query skip limit base) = {}"
    using bc by blast
  ultimately show ?thesis
    unfolding scored_rows_ids
    using page_tier_a_distinct [OF assms] page_tier_b_distinct [OF assms]
      page_tier_c_distinct [OF assms]
    by (simp add: Int_Un_distrib)
qed

lemma base_query_distinct:
  "distinct (map doc_id rows) \<Longrightarrow>
   distinct (map doc_id (base_query document_type category department status rows))"
  by (simp add: base_query_def Let_def distinct_map_filter)

lemma result_of_fields:
  "result_of (doc, s) r \<Longrightarrow>
   res_id r = doc_id doc \<and> res_title r = doc_title doc \<and> res_summary r = doc_summary doc
   \<and> doc_status doc = Some (res_status r) \<and> res_relevance_score r = Some s"
  by (auto simp: result_of_def PolicySearchResult_def split: option.splits)

lemma results_ids:
  "list_all2 result_of rows results \<Longrightarrow>
   map (\<lambda>r. (res_id r, res_relevance_score r)) results = map (\<lambda>ds. (doc_id (fst ds), Some (snd ds))) rows"
proof (induction rule: list_all2_induct)
  case Nil
  show ?case by simp
next
  case (Cons ds rows r results)
  then show ?case using result_of_fields [of "fst ds" "snd ds" r] by simp
qed

lemma results_row:
  "list_all2 result_of rows results \<Longrightarrow> r \<in> set results \<Longrightarrow> \<exists>ds\<in>set rows. result_of ds r"
  by (induction rule: list_all2_induct) auto


lemma scored_rows_length:
  assumes "0 \<le> limit"
  shows "int (length (scored_rows query skip limit base)) \<le> limit"
proof -
  define a where "a = length (page_tier_a query skip limit base)"
  define b where "b = length (page_tier_b query skip limit base)"
  define c where "c = length (page_tier_c query skip limit base)"
  have "a \<le> nat limit" by (simp add: a_def page_tier_a_def)
  moreover have "b \<le> nat limit - a" by (simp add: b_def a_def page_tier_b_def)
  moreover have "c \<le> nat limit - a - b" by (simp add: c_def b_def a_def page_tier_c_def)
  ultimately have "a + b + c \<le> nat limit" by linarith
  moreover have "length (scored_rows query skip limit base) = a + b + c"
    by (simp add: scored_rows_def a_def b_def c_def)
  ultimately show ?thesis using assms by linarith
qed

subsection \<open>The page of the specification\<close>

lemma base_query_eligible:
  "base_query document_type category department status rows
   = filter (eligible document_type category department status) rows"
proof -
  have "filter (\<lambda>d. P d \<and> Q d) xs = filter Q (filter P xs)" for P Q and xs :: "policy_document list"
    by (induction xs) auto
  then show ?thesis
    unfolding base_query_def Let_def eligible_def in_force_def
    by (auto intro!: filter_cong)
qed

lemma title_matches_tier: "title_matches query base = tier_a query base"
  unfolding title_matches_def search_query_def tier_a_def filter_filter
  by (rule filter_cong) (auto simp: title_hit_def)

lemma summary_matches_tier: "summary_matches query base = tier_b query base"
  unfolding summary_matches_def search_query_def tier_b_def filter_filter
  by (rule filter_cong) (auto simp: title_hit_def summary_hit_def)

lemma content_matches_tier: "content_matches query base = tier_c query base"
  unfolding content_matches_def search_query_def tier_c_def filter_filter
  by (rule filter_cong) (auto simp: title_hit_def summary_hit_def content_hit_def)

lemma scored_rows_page:
  "map (\<lambda>ds. (doc_id (fst ds), Some (snd ds))) (scored_rows query skip limit base)
   = search_page query (nat skip) (nat limit) base"
  by (simp add: scored_rows_def search_page_def Let_def page_tier_a_def page_tier_b_def
      page_tier_c_def title_matches_tier summary_matches_tier content_matches_tier comp_def)

subsection \<open>Patterns that contain the query\<close>

lemma lower_char_backslash: "lower_char c = CHR 0x5C \<Longrightarrow> c = CHR 0x5C"
proof -
  assume a: "lower_char c = CHR 0x5C"
  define n where "n = (of_char c :: nat)"
  show ?thesis
  proof (cases "65 \<le> n \<and> n \<le> 90")
    case True
    then have "lower_char c = char_of (n + 32)" by (simp add: lower_char_def n_def Let_def)
    then have "of_char (lower_char c) = (n + 32) mod 256" by (simp add: of_char_of)
    with True have "(of_char (lower_char c) :: nat) = n + 32" by simp
    with a True show ?thesis by simp
  next
    case False
    then have "lower_char c = c" by (auto simp: lower_char_def n_def Let_def)
    with a show ?thesis by simp
  qed
qed

lemma lower_percent: "lower ''%'' = ''%''"
  by (simp add: lower_def lower_char_def)

lemma lower_append: "lower (a @ b) = lower a @ lower b"
  by (simp add: lower_def)

lemma lower_no_backslash:
  assumes "CHR 0x5C \<notin> set q"
  shows "CHR 0x5C \<notin> set (lower q)"
proof
  assume "CHR 0x5C \<in> set (lower q)"
  then obtain x where "x \<in> set q" "lower_char x = CHR 0x5C" by (auto simp: lower_def)
  then show False using assms lower_char_backslash by blast
qed

lemma like_percent_all: "like s ''%''"
  by (induction s) auto

lemma like_skip_percent: "like s ps \<Longrightarrow> like s (CHR ''%'' # ps)"
  by simp

lemma like_literal:
  "CHR 0x5C \<notin> set p \<Longrightarrow> like s rest \<Longrightarrow> like (p @ s) (p @ rest)"
proof (induction p)
  case Nil
  then show ?case by simp
next
  case (Cons c p)
  then have ih: "like (p @ s) (p @ rest)" and c: "c \<noteq> CHR 0x5C" by auto
  show ?case
  proof (cases "c = CHR ''%''")
    case True
    have "like (p @ s) (CHR ''%'' # p @ rest)" using ih by simp
    then show ?thesis using True by simp
  next
    case False
    then show ?thesis using ih c by simp
  qed
qed

lemma like_percent_prefix: "like s (CHR ''%'' # ps) \<Longrightarrow> like (a @ s) (CHR ''%'' # ps)"
  by (induction a) auto

lemma like_contains:
  assumes "CHR 0x5C \<notin> set q"
  shows "like (a @ q @ b) (''%'' @ q @ ''%'')"
proof -
  have "like b ''%''" by (rule like_percent_all)
  then have "like (q @ b) (q @ ''%'')" using assms by (rule like_literal [rotated])
  then have "like (q @ b) (CHR ''%'' # q @ ''%'')" by (rule like_skip_percent)
  then have "like (a @ q @ b) (CHR ''%'' # q @ ''%'')" by (rule like_percent_prefix)
  then show ?thesis by simp
qed

lemma ilike_contains:
  assumes "lower column = a @ lower query @ b" "CHR 0x5C \<notin> set query"
  shows "ilike column (contains_pattern query)"
  unfolding ilike_def contains_pattern_def lower_append lower_percent assms(1)
  using lower_no_backslash [OF assms(2)] by (rule like_contains)

section \<open>Rows found and rewritten\<close>

lemma find_update_first_same:
  "(\<And>x. P (f x) = P x) \<Longrightarrow> find P (update_first P f xs) = map_option f (find P xs)"
  by (induction xs) auto

lemma find_update_first_other:
  "(\<And>x. Q x \<Longrightarrow> \<not> P x \<and> \<not> P (f x)) \<Longrightarrow> find P (update_first Q f xs) = find P xs"
  by (induction xs) auto

lemma update_first_none: "find P xs = None \<Longrightarrow> update_first P f xs = xs"
  by (induction xs) (auto split: if_splits)

lemma length_update_first: "length (update_first P f xs) = length xs"
  by (induction xs) auto



lemma find_append_last:
  "\<forall>x\<in>set xs. \<not> P x \<Longrightarrow> P y \<Longrightarrow> find P (xs @ [y]) = Some y"
  by (induction xs) auto

lemma update_first_append_last:
  "\<forall>x\<in>set xs. \<not> P x \<Longrightarrow> P y \<Longrightarrow> update_first P f (xs @ [y]) = xs @ [f y]"
  by (induction xs) auto

lemma find_None_set: "find P xs = None \<longleftrightarrow> (\<forall>x\<in>set xs. \<not> P x)"
  by (induction xs) auto

section \<open>The daily row\<close>









section \<open>Reading\<close>

text \<open>
  What a read does, in two cases: it raises before its commit and leaves the state, or
  it finds the document public, writes the incremented counter and the view of the day,
  and answers with the stored row as the response schema admits it.
\<close>

lemma read_cases:
  obtains (raised) e where "get_policy_document now i d = (Inl e, d)"
      "e \<noteq> ResponseValidationError"
      "configure_mappers (mappers d) = None \<Longrightarrow> find (\<lambda>x. doc_id x = i) (documents d) = None \<Longrightarrow>
         e = HTTPException HTTP_404_NOT_FOUND ''Policy document not found''"
      "\<And>doc. configure_mappers (mappers d) = None \<Longrightarrow>
         find (\<lambda>x. doc_id x = i) (documents d) = Some doc \<Longrightarrow> doc_is_public doc \<noteq> Some True \<Longrightarrow>
         e = HTTPException HTTP_403_FORBIDDEN ''Document is not public''"
      "e = HTTPException HTTP_404_NOT_FOUND ''Policy document not found'' \<Longrightarrow>
         find (\<lambda>x. doc_id x = i) (documents d) = None"
      "e = HTTPException HTTP_403_FORBIDDEN ''Document is not public'' \<Longrightarrow>
         \<exists>doc. find (\<lambda>x. doc_id x = i) (documents d) = Some doc \<and> doc_is_public doc \<noteq> Some True"
    | (committed) doc rows where
      "configure_mappers (mappers d) = None"
      "find (\<lambda>x. doc_id x = i) (documents d) = Some doc" "doc_is_public doc = Some True"
      "in_INT (doc_view_count doc + 1)"
      "update_analytics Views i now (analytics d) = Inr rows"
      "get_policy_document now i d =
         (PolicyDocumentResponse (doc\<lparr>doc_view_count := doc_view_count doc + 1\<rparr>),
          d\<lparr>documents :=
               update_first (\<lambda>x. doc_id x = i)
                 (\<lambda>x. x\<lparr>doc_view_count := doc_view_count x + 1\<rparr>) (documents d),
            analytics := rows\<rparr>)"
proof (cases "configure_mappers (mappers d)")
  case (Some e)
  then have "get_policy_document now i d = (Inl e, d)"
    by (simp add: get_policy_document_def db_query_def)
  moreover have "e \<noteq> ResponseValidationError"
     "e \<noteq> HTTPException HTTP_404_NOT_FOUND ''Policy document not found''"
     "e \<noteq> HTTPException HTTP_403_FORBIDDEN ''Document is not public''"
    using configure_mappers_error [OF Some] by auto
  ultimately show ?thesis using Some by (intro raised [of e]) simp_all
next
  case None
  then have q: "db_query d (documents d) = Inr (documents d)" by (rule db_query_configured)
  show ?thesis
  proof (cases "find (\<lambda>x. doc_id x = i) (documents d)")
    case absent: None
    then show ?thesis
      by (intro raised [of "HTTPException HTTP_404_NOT_FOUND ''Policy document not found''"])
        (simp_all add: get_policy_document_def q HTTP_404_NOT_FOUND_def HTTP_403_FORBIDDEN_def)
  next
    case (Some doc)
    show ?thesis
    proof (cases "doc_is_public doc = Some True")
      case False
      with Some show ?thesis
        by (intro raised [of "HTTPException HTTP_403_FORBIDDEN ''Document is not public''"])
          (simp_all add: get_policy_document_def q HTTP_404_NOT_FOUND_def HTTP_403_FORBIDDEN_def)
    next
      case True
      show ?thesis
      proof (cases "in_INT (doc_view_count doc + 1)")
        case False
        with Some True show ?thesis
          by (intro raised [of DataError]) (simp_all add: get_policy_document_def q)
      next
        case range: True
        show ?thesis
        proof (cases "update_analytics Views i now (analytics d)")
          case (Inl e)
          then have "e = DataError \<or> e = IntegrityError"
            by (auto simp: update_analytics_def Let_def split: option.splits if_splits)
          with Inl Some True range show ?thesis
            by (intro raised [of e]) (auto simp: get_policy_document_def q)
        next
          case (Inr rows)
          with None Some True range show ?thesis
            by (intro committed [of doc rows]) (simp_all add: get_policy_document_def q)
        qed
      qed
    qed
  qed
qed

lemma find_after_read:
  "find (\<lambda>x. doc_id x = j)
     (update_first (\<lambda>x. doc_id x = i) (\<lambda>x. x\<lparr>doc_view_count := doc_view_count x + 1\<rparr>) docs)
   = (if j = i
      then map_option (\<lambda>x. x\<lparr>doc_view_count := doc_view_count x + 1\<rparr>)
             (find (\<lambda>x. doc_id x = j) docs)
      else find (\<lambda>x. doc_id x = j) docs)"
proof (cases "j = i")
  case True
  have "find (\<lambda>x. doc_id x = i)
     (update_first (\<lambda>x. doc_id x = i) (\<lambda>x. x\<lparr>doc_view_count := doc_view_count x + 1\<rparr>) docs)
     = map_option (\<lambda>x. x\<lparr>doc_view_count := doc_view_count x + 1\<rparr>)
         (find (\<lambda>x. doc_id x = i) docs)"
    by (intro find_update_first_same) simp
  with True show ?thesis by simp
next
  case False
  have "find (\<lambda>x. doc_id x = j)
     (update_first (\<lambda>x. doc_id x = i) (\<lambda>x. x\<lparr>doc_view_count := doc_view_count x + 1\<rparr>) docs)
     = find (\<lambda>x. doc_id x = j) docs"
    using False by (intro find_update_first_other) auto
  with False show ?thesis by simp
qed

lemma response_cases:
  "PolicyDocumentResponse doc = Inr doc \<or> PolicyDocumentResponse doc = Inl ResponseValidationError"
  by (simp add: PolicyDocumentResponse_def)



section \<open>The report\<close>






section \<open>Writing documents\<close>

lemma setattrs_frame:
  "(setattrs upd doc)\<lparr>doc_title := doc_title doc, doc_summary := doc_summary doc,
      doc_content := doc_content doc, doc_keywords := doc_keywords doc,
      doc_expiry_date := doc_expiry_date doc, doc_status := doc_status doc,
      doc_file_url := doc_file_url doc, doc_is_public := doc_is_public doc\<rparr> = doc"
  by (simp add: setattrs_def)

lemma setattrs_id: "doc_id (setattrs upd doc) = doc_id doc"
  by (simp add: setattrs_def)

lemma setattrs_view_count: "doc_view_count (setattrs upd doc) = doc_view_count doc"
  by (simp add: setattrs_def)

lemma find_after_update:
  "find (\<lambda>x. doc_id x = j) (update_first (\<lambda>x. doc_id x = i) (setattrs upd) docs)
   = (if j = i then map_option (setattrs upd) (find (\<lambda>x. doc_id x = j) docs)
      else find (\<lambda>x. doc_id x = j) docs)"
proof (cases "j = i")
  case True
  have "find (\<lambda>x. doc_id x = i) (update_first (\<lambda>x. doc_id x = i) (setattrs upd) docs)
        = map_option (setattrs upd) (find (\<lambda>x. doc_id x = i) docs)"
    by (intro find_update_first_same) (simp add: setattrs_id)
  with True show ?thesis by simp
next
  case False
  have "find (\<lambda>x. doc_id x = j) (update_first (\<lambda>x. doc_id x = i) (setattrs upd) docs)
        = find (\<lambda>x. doc_id x = j) docs"
    using False by (intro find_update_first_other) (auto simp: setattrs_id)
  with False show ?thesis by simp
qed

text \<open>
  What an update does, in three cases: the role guard refuses the caller; the handler
  raises later and before its commit; or it commits the document with the payload's
  fields set.
\<close>

lemma update_cases:
  obtains (guard) "\<not> privileged u"
      "update_policy_document i upd u d
         = (Inl (HTTPException HTTP_403_FORBIDDEN ''Not enough permissions''), d)"
    | (raised) e where "privileged u" "update_policy_document i upd u d = (Inl e, d)"
      "e \<noteq> ResponseValidationError"
      "configure_mappers (mappers d) = None \<Longrightarrow> find (\<lambda>x. doc_id x = i) (documents d) = None \<Longrightarrow>
         e = HTTPException HTTP_404_NOT_FOUND ''Policy document not found''"
      "\<And>doc. configure_mappers (mappers d) = None \<Longrightarrow>
         find (\<lambda>x. doc_id x = i) (documents d) = Some doc \<Longrightarrow> \<not> may_edit u doc \<Longrightarrow>
         e = HTTPException HTTP_403_FORBIDDEN ''Not enough permissions to edit this document''"
      "e = HTTPException HTTP_404_NOT_FOUND ''Policy document not found'' \<Longrightarrow>
         find (\<lambda>x. doc_id x = i) (documents d) = None"
      "e = HTTPException HTTP_403_FORBIDDEN ''Not enough permissions to edit this document'' \<Longrightarrow>
         \<exists>doc. find (\<lambda>x. doc_id x = i) (documents d) = Some doc \<and> \<not> may_edit u doc"
    | (committed) doc where "privileged u" "configure_mappers (mappers d) = None"
      "find (\<lambda>x. doc_id x = i) (documents d) = Some doc" "may_edit u doc"
      "\<not> null_violation upd" "policy_documents_columns (setattrs upd doc)"
      "update_policy_document i upd u d =
         (PolicyDocumentResponse (setattrs upd doc),
          d\<lparr>documents := update_first (\<lambda>x. doc_id x = i) (setattrs upd) (documents d)\<rparr>)"
proof (cases "privileged u")
  case False
  then show ?thesis by (intro guard) (simp_all add: update_policy_document_def)
next
  case p: True
  show ?thesis
  proof (cases "configure_mappers (mappers d)")
    case (Some e)
    then have "update_policy_document i upd u d = (Inl e, d)"
      using p by (simp add: update_policy_document_def db_query_def)
    moreover have "e \<noteq> ResponseValidationError"
      "e \<noteq> HTTPException HTTP_404_NOT_FOUND ''Policy document not found''"
      "e \<noteq> HTTPException HTTP_403_FORBIDDEN ''Not enough permissions to edit this document''"
      using configure_mappers_error [OF Some] by auto
    ultimately show ?thesis using Some p by (intro raised [of e]) simp_all
  next
    case None
    then have q: "db_query d (documents d) = Inr (documents d)" by (rule db_query_configured)
    show ?thesis
    proof (cases "find (\<lambda>x. doc_id x = i) (documents d)")
      case absent: None
      then show ?thesis using p
        by (intro raised [of "HTTPException HTTP_404_NOT_FOUND ''Policy document not found''"])
          (simp_all add: update_policy_document_def q HTTP_404_NOT_FOUND_def HTTP_403_FORBIDDEN_def)
    next
      case (Some doc)
      show ?thesis
      proof (cases "may_edit u doc")
        case False
        with Some p show ?thesis
          by (intro raised [of "HTTPException HTTP_403_FORBIDDEN
                                  ''Not enough permissions to edit this document''"])
            (simp_all add: update_policy_document_def q may_edit_def HTTP_404_NOT_FOUND_def
              HTTP_403_FORBIDDEN_def)
      next
        case True
        show ?thesis
        proof (cases "null_violation upd")
          case nv: True
          with Some p True show ?thesis
            by (intro raised [of IntegrityError])
              (auto simp: update_policy_document_def q may_edit_def)
        next
          case nv: False
          show ?thesis
          proof (cases "policy_documents_columns (setattrs upd doc)")
            case False
            with Some p True nv show ?thesis
              by (intro raised [of DataError])
                (auto simp: update_policy_document_def q may_edit_def)
          next
            case cols: True
            with Some p True nv None show ?thesis
              by (intro committed [of doc])
                (auto simp: update_policy_document_def q may_edit_def)
          qed
        qed
      qed
    qed
  qed
qed

lemma no_duplicate_keyword_create: "\<not> duplicate_keyword PolicyDocumentCreate_keys [''created_by'']"
  by (simp add: duplicate_keyword_def PolicyDocumentCreate_keys_def)

lemma find_Some_set: "\<exists>x\<in>set xs. P x \<Longrightarrow> \<exists>y. find P xs = Some y"
  by (induction xs) auto

lemma create_state:
  "snd (create_policy_document now document u d) = d
   \<or> (\<exists>doc'. snd (create_policy_document now document u d)
              = d\<lparr>documents := documents d @ [doc']\<rparr>)"
  by (auto simp: create_policy_document_def Let_def split: sum.splits option.splits)

section \<open>What a request leaves of the documents\<close>

lemma find_append_Some: "find P xs = Some x \<Longrightarrow> find P (xs @ ys) = Some x"
  by (induction xs) (auto split: if_splits)

lemma search_documents:
  assumes "search_policy_documents now query skip limit document_type category department status d
             = Inr (results, d')"
  shows "documents d' = documents d"
proof -
  from assms obtain rows where "d' = d\<lparr>analytics := rows\<rparr>"
    unfolding search_policy_documents_def and_then_def Let_def
    by (auto split: sum.splits)
  then show ?thesis by simp
qed

lemma create_documents:
  assumes "find (\<lambda>x. doc_id x = i) (documents d) = Some doc"
  shows "find (\<lambda>x. doc_id x = i) (documents (snd (create_policy_document now document u d)))
           = Some doc"
  using create_state [of now document u d] assms by (auto simp: find_append_Some)

lemma update_documents:
  assumes f: "find (\<lambda>x. doc_id x = i) (documents d) = Some doc"
  shows "\<exists>doc'. find (\<lambda>x. doc_id x = i)
             (documents (snd (update_policy_document j upd u d))) = Some doc'
          \<and> doc_view_count doc' = doc_view_count doc"
proof (cases rule: update_cases [of u j upd d])
  case guard
  with f show ?thesis by simp
next
  case (raised e)
  with f show ?thesis by simp
next
  case (committed other)
  show ?thesis
  proof (cases "i = j")
    case True
    with committed f show ?thesis by (simp add: find_after_update setattrs_view_count)
  next
    case False
    with committed f show ?thesis by (simp add: find_after_update)
  qed
qed

lemma comment_documents:
  "documents (snd (add_policy_comment now j comment u d)) = documents d"
  by (simp add: add_policy_comment_def Let_def split: option.splits sum.splits)

lemma read_commits_iff:
  "read_commits now j d \<longleftrightarrow>
   (\<exists>doc rows. find (\<lambda>x. doc_id x = j) (documents d) = Some doc
      \<and> snd (get_policy_document now j d)
          = d\<lparr>documents :=
                update_first (\<lambda>x. doc_id x = j)
                  (\<lambda>x. x\<lparr>doc_view_count := doc_view_count x + 1\<rparr>) (documents d),
              analytics := rows\<rparr>
      \<and> fst (get_policy_document now j d)
          = PolicyDocumentResponse (doc\<lparr>doc_view_count := doc_view_count doc + 1\<rparr>))"
proof (cases rule: read_cases [of now j d])
  case (raised e)
  have "fst (get_policy_document now j d) \<noteq> PolicyDocumentResponse x" for x
    using raised(1,2) response_cases [of x] by auto
  with raised(1,2) show ?thesis by (simp add: read_commits_def)
next
  case (committed doc rows)
  then show ?thesis
    using response_cases [of "doc\<lparr>doc_view_count := doc_view_count doc + 1\<rparr>"]
    by (auto simp: read_commits_def)
qed

lemma read_documents:
  assumes f: "find (\<lambda>x. doc_id x = i) (documents d) = Some doc"
  shows "\<exists>doc'. find (\<lambda>x. doc_id x = i)
             (documents (snd (get_policy_document now j d))) = Some doc'
          \<and> doc_view_count doc'
              = doc_view_count doc + (if j = i \<and> read_commits now j d then 1 else 0)"
proof (cases rule: read_cases [of now j d])
  case (raised e)
  then have "\<not> read_commits now j d" by (simp add: read_commits_def)
  with raised f show ?thesis by simp
next
  case (committed other rows)
  have rc: "read_commits now j d"
    using committed(6)
      response_cases [of "other\<lparr>doc_view_count := doc_view_count other + 1\<rparr>"]
    by (auto simp: read_commits_def)
  show ?thesis
    unfolding committed(6) using f rc by (auto simp: find_after_read)
qed

lemma dispatch_view_count:
  assumes f: "find (\<lambda>x. doc_id x = i) (documents d) = Some doc"
  shows "\<exists>doc'. find (\<lambda>x. doc_id x = i) (documents (dispatch now request d)) = Some doc'
          \<and> doc_view_count doc'
              = (if request = ReadDocument i \<and> read_commits now i d
                 then doc_view_count doc + 1 else doc_view_count doc)"
proof (cases request)
  case (CreateDocument document u)
  then show ?thesis using create_documents [OF f] by simp
next
  case (SearchDocuments query skip limit document_type category department status)
  show ?thesis
  proof (cases "search_policy_documents now query skip limit document_type category department
                  status d")
    case (Inl e)
    with SearchDocuments f show ?thesis by (simp add: committed_def)
  next
    case (Inr p)
    obtain results d' where p: "p = (results, d')" by (cases p)
    from search_documents [OF Inr [unfolded p]] Inr p SearchDocuments f
    show ?thesis by (simp add: committed_def)
  qed
next
  case (ReadDocument j)
  then show ?thesis using read_documents [OF f, of now j] by auto
next
  case (UpdateDocument j upd u)
  then show ?thesis using update_documents [OF f, of j upd u] by simp
next
  case (AddComment j comment u)
  then show ?thesis using f by (simp add: comment_documents)
qed (simp_all add: f)

lemma read_succeeds_commits: "read_succeeds now i d \<Longrightarrow> read_commits now i d"
  by (simp add: read_succeeds_def read_commits_def split: sum.splits)

lemma reads_view_count:
  assumes "find (\<lambda>x. doc_id x = i) (documents d) = Some doc" "reads_succeed ts i d"
  shows "\<exists>doc'. find (\<lambda>x. doc_id x = i) (documents (view_events ts i d)) = Some doc'
           \<and> doc_view_count doc' = doc_view_count doc + int (length ts)"
  using assms
proof (induction ts arbitrary: d doc)
  case Nil
  then show ?case by simp
next
  case (Cons t ts)
  from Cons.prems(2) have ok: "read_succeeds t i d"
    and rest: "reads_succeed ts i (snd (get_policy_document t i d))" by simp_all
  from read_documents [OF Cons.prems(1), of t i] read_succeeds_commits [OF ok]
  obtain doc1 where f1: "find (\<lambda>x. doc_id x = i) (documents (snd (get_policy_document t i d)))
      = Some doc1" and v1: "doc_view_count doc1 = doc_view_count doc + 1" by auto
  from Cons.IH [OF f1 rest] v1 show ?case by (simp add: add.assoc)
qed

text \<open>
  The comment handler gives \<^verbatim>\<open>policy_document_id\<close> twice to the constructor of the row,
  once from the unpacked payload and once as a keyword: for a stored document the call
  raises, and nothing is written.
\<close>

lemma add_policy_comment_raises:
  "configure_mappers (mappers d) = None \<Longrightarrow>
   find (\<lambda>doc. doc_id doc = document_id) (documents d) = Some document \<Longrightarrow>
   add_policy_comment now document_id comment current_user d = (Inl TypeError, d)"
  by (simp add: add_policy_comment_def db_query_def duplicate_keyword_def
      PolicyCommentCreate_keys_def)

section \<open>Search: pagination and tiers\<close>

lemma ex_search_all:
  "search_policy_documents 5 ''water'' 0 100 None None None (Some ''active'') ex_db =
   Inr ([ex_hit 1 ''Water Act'' ''WCA-001'' ''rivers'' 1,
         ex_hit 2 ''Fire Act'' ''FA-002'' ''no water'' (7 / 10),
         ex_hit 3 ''Air Act'' ''AA-003'' ''wind'' (1 / 2)],
        ex_db\<lparr>analytics := [ex_appearance 1 1 5, ex_appearance 2 2 5, ex_appearance 3 3 5]\<rparr>)"
  by code_simp

lemma page_search:
  "search_policy_documents 5 ''water'' 1 3 None None None (Some ''active'') page_db =
   Inr (page_results,
        page_db\<lparr>analytics := [ex_appearance 1 2 5, ex_appearance 2 3 5, ex_appearance 3 4 5]\<rparr>)"
  by code_simp

lemma page_of_specification:
  "search_page ''water'' 1 3 (filter (eligible None None None (Some ''active'')) (documents page_db))
   = [(2, Some 1), (3, Some (7 / 10)), (4, Some (1 / 2))]"
  by code_simp

text \<open>
  Claim C4. When the search returns, neither the offset nor the limit was negative, and
  the list is the page of the specification over the eligible documents: the documents
  of Tier A after \<open>skip\<close> of them, at most \<open>limit\<close>, with score 1.0; then the first
  documents of Tier B, as many as the slots left, with score 0.7; then the first
  documents of Tier C, as many as the slots still left, with score 0.5. The offset cuts
  Tier A only, and the list has at most \<open>limit\<close> entries.
\<close>

theorem search_pagination:
  assumes "search_policy_documents now query skip limit document_type category department status d
             = Inr (results, d')"
  shows "0 \<le> skip \<and> 0 \<le> limit
         \<and> map (\<lambda>r. (res_id r, res_relevance_score r)) results
           = search_page query (nat skip) (nat limit)
               (filter (eligible document_type category department status) (documents d))
         \<and> int (length results) \<le> limit"
proof -
  define base where "base = base_query document_type category department status (documents d)"
  from search_shape [OF assms] have nonneg: "0 \<le> skip" "0 \<le> limit"
    and rows: "list_all2 result_of (scored_rows query skip limit base) results"
    by (simp_all add: base_def)
  have "map (\<lambda>r. (res_id r, res_relevance_score r)) results
        = map (\<lambda>ds. (doc_id (fst ds), Some (snd ds))) (scored_rows query skip limit base)"
    using rows by (rule results_ids)
  also have "\<dots> = search_page query (nat skip) (nat limit) base"
    by (rule scored_rows_page)
  finally have shape: "map (\<lambda>r. (res_id r, res_relevance_score r)) results
        = search_page query (nat skip) (nat limit)
            (filter (eligible document_type category department status) (documents d))"
    by (simp add: base_def base_query_eligible)
  have "length results = length (scored_rows query skip limit base)"
    using rows by (simp add: list_all2_lengthD)
  then have "int (length results) \<le> limit"
    using scored_rows_length [OF nonneg(2), of query skip base] by simp
  with nonneg shape show ?thesis by blast
qed

theorem search_pagination_witness:
  "search_policy_documents 5 ''water'' 1 3 None None None (Some ''active'') page_db =
     Inr (page_results,
          page_db\<lparr>analytics := [ex_appearance 1 2 5, ex_appearance 2 3 5, ex_appearance 3 4 5]\<rparr>)
   \<and> map (\<lambda>r. (res_id r, res_relevance_score r)) page_results
     = search_page ''water'' (nat 1) (nat 3)
         (filter (eligible None None None (Some ''active'')) (documents page_db))
   \<and> map (\<lambda>r. (res_id r, res_relevance_score r)) page_results
     = [(2, Some 1), (3, Some (7 / 10)), (4, Some (1 / 2))]
   \<and> int (length page_results) \<le> 3"
proof -
  note t = search_pagination [OF page_search]
  from t have shape: "map (\<lambda>r. (res_id r, res_relevance_score r)) page_results
     = search_page ''water'' (nat 1) (nat 3)
         (filter (eligible None None None (Some ''active'')) (documents page_db))"
    by (rule conjunct2 [THEN conjunct2, THEN conjunct1])
  from t have len: "int (length page_results) \<le> 3"
    by (rule conjunct2 [THEN conjunct2, THEN conjunct2])
  from shape have ids: "map (\<lambda>r. (res_id r, res_relevance_score r)) page_results
     = [(2, Some 1), (3, Some (7 / 10)), (4, Some (1 / 2))]"
    using page_of_specification by simp
  from page_search shape ids len show ?thesis by (intro conjI)
qed

text \<open>
  Claim C2. On a table whose ids are distinct, no id occurs twice in a result list, and
  every result is listed by the one tier of its document: with score 1.0 when the title
  matches; with score 0.7 only when the title does not match and the summary does; with
  score 0.5 only when neither title nor summary match and the content does.
\<close>

theorem search_tiers_exclusive:
  assumes "search_policy_documents now query skip limit document_type category department status d
             = Inr (results, d')"
    and "distinct (map doc_id (documents d))"
  shows "distinct (map res_id results)
         \<and> (\<forall>r\<in>set results. \<exists>doc\<in>set (documents d). doc_id doc = res_id r
               \<and> (res_relevance_score r = Some 1 \<and> title_hit query doc
                  \<or> res_relevance_score r = Some (7 / 10) \<and> \<not> title_hit query doc
                      \<and> summary_hit query doc
                  \<or> res_relevance_score r = Some (1 / 2) \<and> \<not> title_hit query doc
                      \<and> \<not> summary_hit query doc \<and> content_hit query doc))"
proof -
  define base where "base = base_query document_type category department status (documents d)"
  from search_shape [OF assms(1)]
  have rows: "list_all2 result_of (scored_rows query skip limit base) results"
    by (simp add: base_def)
  have dbase: "distinct (map doc_id base)"
    unfolding base_def using assms(2) by (rule base_query_distinct)
  have "map res_id results = map fst (map (\<lambda>r. (res_id r, res_relevance_score r)) results)"
    by (simp add: comp_def)
  also have "\<dots> = map (\<lambda>ds. doc_id (fst ds)) (scored_rows query skip limit base)"
    unfolding results_ids [OF rows] by (simp add: comp_def)
  finally have "distinct (map res_id results)"
    using scored_rows_distinct [OF dbase, of query skip limit] by simp
  moreover have "\<exists>doc\<in>set (documents d). doc_id doc = res_id r
               \<and> (res_relevance_score r = Some 1 \<and> title_hit query doc
                  \<or> res_relevance_score r = Some (7 / 10) \<and> \<not> title_hit query doc
                      \<and> summary_hit query doc
                  \<or> res_relevance_score r = Some (1 / 2) \<and> \<not> title_hit query doc
                      \<and> \<not> summary_hit query doc \<and> content_hit query doc)"
    if "r \<in> set results" for r
  proof -
    from results_row [OF rows that] obtain doc s
      where in_rows: "(doc, s) \<in> set (scored_rows query skip limit base)"
        and res: "result_of (doc, s) r"
      by auto
    from scored_rows_tier [OF in_rows]
    have "doc \<in> set base"
      and tier: "s = 1 \<and> title_hit query doc
          \<or> s = 7 / 10 \<and> \<not> title_hit query doc \<and> summary_hit query doc
          \<or> s = 1 / 2 \<and> \<not> title_hit query doc \<and> \<not> summary_hit query doc \<and> content_hit query doc"
      by simp_all
    then have "doc \<in> set (documents d)" using base_query_subset base_def by blast
    moreover from result_of_fields [OF res]
    have "res_id r = doc_id doc" "res_relevance_score r = Some s" by simp_all
    ultimately show ?thesis using tier by auto
  qed
  ultimately show ?thesis by blast
qed

lemma ex_docs_distinct: "distinct (map doc_id (documents ex_db))"
  by (simp add: ex_db_def ex_docs_def doc0_def)

theorem search_tiers_exclusive_witness:
  "search_policy_documents 5 ''water'' 0 100 None None None (Some ''active'') ex_db =
     Inr ([ex_hit 1 ''Water Act'' ''WCA-001'' ''rivers'' 1,
           ex_hit 2 ''Fire Act'' ''FA-002'' ''no water'' (7 / 10),
           ex_hit 3 ''Air Act'' ''AA-003'' ''wind'' (1 / 2)],
          ex_db\<lparr>analytics := [ex_appearance 1 1 5, ex_appearance 2 2 5, ex_appearance 3 3 5]\<rparr>)
   \<and> distinct (map doc_id (documents ex_db))
   \<and> distinct (map res_id [ex_hit 1 ''Water Act'' ''WCA-001'' ''rivers'' 1,
           ex_hit 2 ''Fire Act'' ''FA-002'' ''no water'' (7 / 10),
           ex_hit 3 ''Air Act'' ''AA-003'' ''wind'' (1 / 2)])
   \<and> (\<exists>doc\<in>set (documents ex_db). doc_id doc = 2 \<and> \<not> title_hit ''water'' doc
         \<and> summary_hit ''water'' doc)"
proof -
  note t = search_tiers_exclusive [OF ex_search_all ex_docs_distinct]
  from t have d: "distinct (map res_id [ex_hit 1 ''Water Act'' ''WCA-001'' ''rivers'' 1,
           ex_hit 2 ''Fire Act'' ''FA-002'' ''no water'' (7 / 10),
           ex_hit 3 ''Air Act'' ''AA-003'' ''wind'' (1 / 2)])" by blast
  from t have "\<exists>doc\<in>set (documents ex_db).
      doc_id doc = res_id (ex_hit 2 ''Fire Act'' ''FA-002'' ''no water'' (7 / 10))
      \<and> (res_relevance_score (ex_hit 2 ''Fire Act'' ''FA-002'' ''no water'' (7 / 10)) = Some 1
             \<and> title_hit ''water'' doc
          \<or> res_relevance_score (ex_hit 2 ''Fire Act'' ''FA-002'' ''no water'' (7 / 10)) = Some (7 / 10)
             \<and> \<not> title_hit ''water'' doc \<and> summary_hit ''water'' doc
          \<or> res_relevance_score (ex_hit 2 ''Fire Act'' ''FA-002'' ''no water'' (7 / 10)) = Some (1 / 2)
             \<and> \<not> title_hit ''water'' doc \<and> \<not> summary_hit ''water'' doc
             \<and> content_hit ''water'' doc)"
    by simp
  then have "\<exists>doc\<in>set (documents ex_db). doc_id doc = 2 \<and> \<not> title_hit ''water'' doc
         \<and> summary_hit ''water'' doc"
    by (auto simp: ex_hit_def)
  with d ex_search_all ex_docs_distinct show ?thesis by blast
qed

text \<open>
  Claim C10. Every returned result carries one of the three scores 1.0, 0.7 and 0.5 and
  belongs to a document matched in its title, its summary or its content. On a table
  whose ids are distinct, a document matched only in its keywords or its document number
  is in no result list, although the full-text filter of the handler selects it.
\<close>

theorem search_ignores_keywords_and_number:
  assumes "search_policy_documents now query skip limit document_type category department status d
             = Inr (results, d')"
    and "distinct (map doc_id (documents d))"
  shows "(\<forall>r\<in>set results.
            res_relevance_score r \<in> {Some 1, Some (7 / 10), Some (1 / 2)}
            \<and> (\<exists>doc\<in>set (documents d). doc_id doc = res_id r
                  \<and> (title_hit query doc \<or> summary_hit query doc \<or> content_hit query doc)))
         \<and> (\<forall>doc\<in>set (documents d).
               (ilike_opt (doc_keywords doc) (contains_pattern query)
                \<or> ilike (doc_document_number doc) (contains_pattern query))
               \<and> \<not> title_hit query doc \<and> \<not> summary_hit query doc \<and> \<not> content_hit query doc
               \<longrightarrow> doc_id doc \<notin> res_id ` set results)"
proof -
  define base where "base = base_query document_type category department status (documents d)"
  from search_shape [OF assms(1)]
  have rows: "list_all2 result_of (scored_rows query skip limit base) results"
    by (simp add: base_def)
  have origin: "\<exists>doc s. doc \<in> set (documents d) \<and> doc_id doc = res_id r
                  \<and> res_relevance_score r = Some s
                  \<and> (s = 1 \<or> s = 7 / 10 \<or> s = 1 / 2)
                  \<and> (title_hit query doc \<or> summary_hit query doc \<or> content_hit query doc)"
    if "r \<in> set results" for r
  proof -
    from results_row [OF rows that] obtain doc s
      where in_rows: "(doc, s) \<in> set (scored_rows query skip limit base)"
        and res: "result_of (doc, s) r"
      by auto
    from scored_rows_tier [OF in_rows]
    have "doc \<in> set base"
      and tier: "s = 1 \<and> title_hit query doc
          \<or> s = 7 / 10 \<and> \<not> title_hit query doc \<and> summary_hit query doc
          \<or> s = 1 / 2 \<and> \<not> title_hit query doc \<and> \<not> summary_hit query doc \<and> content_hit query doc"
      by simp_all
    then have "doc \<in> set (documents d)" using base_query_subset base_def by blast
    moreover from result_of_fields [OF res]
    have "res_id r = doc_id doc" "res_relevance_score r = Some s" by simp_all
    ultimately show ?thesis using tier by auto
  qed
  have first: "res_relevance_score r \<in> {Some 1, Some (7 / 10), Some (1 / 2)}
            \<and> (\<exists>doc\<in>set (documents d). doc_id doc = res_id r
                  \<and> (title_hit query doc \<or> summary_hit query doc \<or> content_hit query doc))"
    if "r \<in> set results" for r
    using origin [OF that] by auto
  have second: "doc_id doc \<notin> res_id ` set results"
    if "doc \<in> set (documents d)"
      and none: "\<not> title_hit query doc" "\<not> summary_hit query doc" "\<not> content_hit query doc"
    for doc
  proof
    assume "doc_id doc \<in> res_id ` set results"
    then obtain r where r: "r \<in> set results" "res_id r = doc_id doc" by auto
    from origin [OF r(1)] obtain doc' where doc': "doc' \<in> set (documents d)"
      "doc_id doc' = res_id r"
      "title_hit query doc' \<or> summary_hit query doc' \<or> content_hit query doc'"
      by blast
    have "doc' = doc"
      using same_id_same_row [OF assms(2) doc'(1) that(1)] doc'(2) r(2) by simp
    with doc'(3) none show False by simp
  qed
  from first second show ?thesis by blast
qed

lemma ex_doc4_member:
  "doc0\<lparr>doc_id := 4, doc_title := ''Soil Act'', doc_document_number := ''SA-004'',
           doc_summary := ''sand'', doc_content := ''clay'',
           doc_keywords := Some ''water,earth''\<rparr> \<in> set (documents ex_db)"
  by (simp add: ex_db_def ex_docs_def)

lemma ex_doc4_keywords_only:
  "ilike_opt (Some ''water,earth'') (contains_pattern ''water'')
   \<and> \<not> ilike ''Soil Act'' (contains_pattern ''water'')
   \<and> \<not> ilike ''sand'' (contains_pattern ''water'')
   \<and> \<not> ilike ''clay'' (contains_pattern ''water'')"
  by code_simp

theorem search_ignores_keywords_and_number_witness:
  "search_policy_documents 5 ''water'' 0 100 None None None (Some ''active'') ex_db =
     Inr ([ex_hit 1 ''Water Act'' ''WCA-001'' ''rivers'' 1,
           ex_hit 2 ''Fire Act'' ''FA-002'' ''no water'' (7 / 10),
           ex_hit 3 ''Air Act'' ''AA-003'' ''wind'' (1 / 2)],
          ex_db\<lparr>analytics := [ex_appearance 1 1 5, ex_appearance 2 2 5, ex_appearance 3 3 5]\<rparr>)
   \<and> distinct (map doc_id (documents ex_db))
   \<and> ilike_opt (Some ''water,earth'') (contains_pattern ''water'')
   \<and> (4::int) \<notin> res_id ` set [ex_hit 1 ''Water Act'' ''WCA-001'' ''rivers'' 1,
           ex_hit 2 ''Fire Act'' ''FA-002'' ''no water'' (7 / 10),
           ex_hit 3 ''Air Act'' ''AA-003'' ''wind'' (1 / 2)]"
proof -
  let ?doc = "doc0\<lparr>doc_id := 4, doc_title := ''Soil Act'', doc_document_number := ''SA-004'',
           doc_summary := ''sand'', doc_content := ''clay'',
           doc_keywords := Some ''water,earth''\<rparr>"
  note t = search_ignores_keywords_and_number [OF ex_search_all ex_docs_distinct]
  have hits: "(ilike_opt (doc_keywords ?doc) (contains_pattern ''water'')
                \<or> ilike (doc_document_number ?doc) (contains_pattern ''water''))
               \<and> \<not> title_hit ''water'' ?doc \<and> \<not> summary_hit ''water'' ?doc
               \<and> \<not> content_hit ''water'' ?doc"
    using ex_doc4_keywords_only by (simp add: title_hit_def summary_hit_def content_hit_def)
  from t ex_doc4_member hits
  have "doc_id ?doc \<notin> res_id ` set [ex_hit 1 ''Water Act'' ''WCA-001'' ''rivers'' 1,
           ex_hit 2 ''Fire Act'' ''FA-002'' ''no water'' (7 / 10),
           ex_hit 3 ''Air Act'' ''AA-003'' ''wind'' (1 / 2)]"
    by blast
  then have "(4::int) \<notin> res_id ` set [ex_hit 1 ''Water Act'' ''WCA-001'' ''rivers'' 1,
           ex_hit 2 ''Fire Act'' ''FA-002'' ''no water'' (7 / 10),
           ex_hit 3 ''Air Act'' ''AA-003'' ''wind'' (1 / 2)]"
    by simp
  with ex_search_all ex_docs_distinct ex_doc4_keywords_only show ?thesis by blast
qed

section \<open>Search: title matches are found\<close>






section \<open>The engagement score\<close>





section \<open>Views in the report\<close>

text \<open>
  Claim C1 at a concrete input. One document is stored, public, with no analytics row.
  It is read once at noon of day 0, and an administrator then asks for the report with
  start and end both day 0 (midnight). With the registry of \<^verbatim>\<open>models.py\<close> the read
  raises at its first query and books nothing, and so does the report. With the
  citations relationship declared on its foreign key the read books one view on day 0,
  on a row stamped noon, and the report, which compares that stamp with the bounds of
  the period, counts no view.
\<close>

theorem view_then_report_example:
  "get_policy_document noon 1 one_doc_db
     = (Inl (AmbiguousForeignKeysError ''PolicyDocument.citations''), one_doc_db)
   \<and> get_policy_analytics 1 0 0 admin one_doc_db
       = Inl (AmbiguousForeignKeysError ''PolicyDocument.citations'')
   \<and> date_of noon = 0
   \<and> fst (get_policy_document noon 1 (configured one_doc_db))
       = Inr (water_act\<lparr>doc_view_count := 1\<rparr>)
   \<and> views_on (snd (get_policy_document noon 1 (configured one_doc_db))) 1 0 = 1
   \<and> map_sum id rep_total_views
       (get_policy_analytics 1 0 0 admin (snd (get_policy_document noon 1 (configured one_doc_db))))
       = Inr 0"
  by code_simp

section \<open>Reading a document\<close>








text \<open>
  A first view of the day in the last half second before midnight is booked on the next
  day: the datastore rounds the stamp of the new row to the second.
\<close>

lemma late_view:
  "date_of last_instant = 0 \<and> view_day last_instant 1 (configured one_doc_db) = 1
   \<and> views_on (snd (get_policy_document last_instant 1 (configured one_doc_db))) 1 1 = 1"
  by code_simp

section \<open>Updating a document\<close>



lemma mappers_configured: "configure_mappers (mappers (configured d)) = None"
  by (simp add: configured_def keyed_models_py_configures)






text \<open>
  Two updates by the creator of the document that do not succeed: a title longer than
  its column is refused by the datastore, and \<^verbatim>\<open>null\<close> for the status is committed and
  then fails the response schema.
\<close>

lemma water_act_stored:
  "documents (configured one_doc_db) = [water_act]" "doc_id water_act = 1"
  "doc_created_by water_act = 1" "privileged official" "user_id official = 1"
  by (simp_all add: configured_def one_doc_db_def water_act_def doc0_def privileged_def
      official_def)

lemma long_title_refused:
  "update_policy_document 1 long_title_update official (configured one_doc_db)
     = (Inl DataError, configured one_doc_db)"
proof -
  have n: "\<not> null_violation long_title_update"
    by (simp add: null_violation_def long_title_update_def title_update_def)
  have c: "\<not> policy_documents_columns (setattrs long_title_update water_act)"
    by (simp add: policy_documents_columns_def setattrs_def long_title_update_def
        set_required_def)
  show ?thesis
    unfolding update_policy_document_def db_query_def mappers_configured
    using n c by (simp add: water_act_stored)
qed

lemma null_status_committed:
  "update_policy_document 1 null_status_update official (configured one_doc_db)
     = (Inl ResponseValidationError,
        (configured one_doc_db)\<lparr>documents := [water_act\<lparr>doc_status := None\<rparr>]\<rparr>)"
proof -
  have n: "\<not> null_violation null_status_update"
    by (simp add: null_violation_def null_status_update_def title_update_def)
  have s: "setattrs null_status_update water_act = water_act\<lparr>doc_status := None\<rparr>"
    by (simp add: setattrs_def null_status_update_def title_update_def set_required_def
        set_nullable_def water_act_def doc0_def)
  have c: "policy_documents_columns (water_act\<lparr>doc_status := None\<rparr>)"
    by (simp add: policy_documents_columns_def water_act_def doc0_def fits_def in_INT_def
        INT_MAX_def)
  show ?thesis
    unfolding update_policy_document_def db_query_def mappers_configured
    using n c by (simp add: water_act_stored s PolicyDocumentResponse_def)
qed

section \<open>Creating a document\<close>

text \<open>
  Claim C8 at a concrete input. A document with number \<^verbatim>\<open>WCA-001\<close> is stored and an
  administrator creates another with the same number. With the registry of
  \<^verbatim>\<open>models.py\<close> the handler raises at the lookup of the number: the caller gets a server
  error and not the answer with status 400 that the handler has for a duplicate, while
  the store is unchanged. With the citations relationship declared on its foreign key
  the same create is answered with status 400.
\<close>

theorem duplicate_create_example:
  "water_act \<in> set (documents one_doc_db)
   \<and> doc_document_number water_act = new_document_number water_payload
   \<and> privileged admin
   \<and> create_policy_document 5 water_payload admin one_doc_db
       = (Inl (AmbiguousForeignKeysError ''PolicyDocument.citations''), one_doc_db)
   \<and> create_policy_document 5 water_payload admin (configured one_doc_db)
       = (Inl (HTTPException HTTP_400_BAD_REQUEST ''Document number already exists''),
          configured one_doc_db)"
  by code_simp

section \<open>The view counter\<close>

text \<open>
  Claim C9. Whatever request the module handles (create, search, list, read, update,
  comment, list comments, statistics, report, recommendations), the view counter of a
  stored document after the request is the counter before it, plus one exactly when the
  request is a read of that document that commits. A read that answers with the
  document commits, so each successful read adds exactly one, and a run of \<open>N\<close> successful
  reads adds exactly \<open>N\<close>. (The only other read that commits is one whose answer fails
  the response schema after the commit; a read of a counter at the end of the range of
  its column is refused by the datastore and leaves the counter.)
\<close>

theorem view_count_changes_only_by_reads:
  assumes "view_count_of d i = Some v"
  shows "view_count_of (dispatch now request d) i
           = Some (if request = ReadDocument i \<and> read_commits now i d then v + 1 else v)
         \<and> (read_succeeds now i d \<longrightarrow>
              view_count_of (dispatch now (ReadDocument i) d) i = Some (v + 1))
         \<and> (reads_succeed ts i d \<longrightarrow>
              view_count_of (view_events ts i d) i = Some (v + int (length ts)))"
proof -
  from assms obtain doc where f: "find (\<lambda>x. doc_id x = i) (documents d) = Some doc"
    and v: "doc_view_count doc = v"
    by (auto simp: view_count_of_def)
  have one: "view_count_of (dispatch now r d) i
           = Some (if r = ReadDocument i \<and> read_commits now i d then v + 1 else v)" for r
    using dispatch_view_count [OF f, of now r] v by (auto simp: view_count_of_def)
  have ok: "view_count_of (dispatch now (ReadDocument i) d) i = Some (v + 1)"
    if "read_succeeds now i d"
    using one [of "ReadDocument i"] read_succeeds_commits [OF that] by simp
  have many: "view_count_of (view_events ts i d) i = Some (v + int (length ts))"
    if "reads_succeed ts i d"
    using reads_view_count [OF f that] v by (auto simp: view_count_of_def)
  from one [of request] ok many show ?thesis by blast
qed

lemma ex_view_count:
  "view_count_of one_doc_db 1 = Some 0 \<and> view_count_of (configured one_doc_db) 1 = Some 0
   \<and> \<not> read_commits noon 1 one_doc_db
   \<and> read_commits noon 1 (configured one_doc_db)
   \<and> read_succeeds noon 1 (configured one_doc_db)
   \<and> reads_succeed [noon, noon + 1, noon + usec_per_day] 1 (configured one_doc_db)
   \<and> view_count_of full_db 1 = Some INT_MAX \<and> \<not> read_commits noon 1 full_db
   \<and> fst (get_policy_document noon 1 full_db) = Inl DataError"
  by code_simp

theorem view_count_changes_only_by_reads_witness:
  "view_count_of one_doc_db 1 = Some 0
   \<and> view_count_of (dispatch noon (ReadDocument 1) one_doc_db) 1 = Some 0
   \<and> view_count_of (configured one_doc_db) 1 = Some 0
   \<and> view_count_of (dispatch noon (ReadDocument 1) (configured one_doc_db)) 1 = Some 1
   \<and> view_count_of (dispatch noon (UpdateDocument 1 title_update admin) (configured one_doc_db)) 1
       = Some 0
   \<and> view_count_of (view_events [noon, noon + 1, noon + usec_per_day] 1 (configured one_doc_db)) 1
       = Some 3
   \<and> fst (get_policy_document noon 1 full_db) = Inl DataError
   \<and> view_count_of (dispatch noon (ReadDocument 1) full_db) 1 = Some INT_MAX"
proof -
  from ex_view_count have s: "view_count_of one_doc_db 1 = Some 0"
    and c: "view_count_of (configured one_doc_db) 1 = Some 0"
    and no: "\<not> read_commits noon 1 one_doc_db"
    and yes: "read_commits noon 1 (configured one_doc_db)"
    and ok: "read_succeeds noon 1 (configured one_doc_db)"
    and run: "reads_succeed [noon, noon + 1, noon + usec_per_day] 1 (configured one_doc_db)"
    and full: "view_count_of full_db 1 = Some INT_MAX" and stays: "\<not> read_commits noon 1 full_db"
    and refused: "fst (get_policy_document noon 1 full_db) = Inl DataError"
    by simp_all
  have top: "view_count_of (dispatch noon (ReadDocument 1) full_db) 1 = Some INT_MAX"
    using view_count_changes_only_by_reads [OF full, of noon "ReadDocument 1" "[]"] stays by simp
  have as_declared: "view_count_of (dispatch noon (ReadDocument 1) one_doc_db) 1 = Some 0"
    using view_count_changes_only_by_reads [OF s, of noon "ReadDocument 1" "[]"] no by simp
  have "view_count_of (dispatch noon (ReadDocument 1) (configured one_doc_db)) 1 = Some (0 + 1)"
    using view_count_changes_only_by_reads [OF c, of noon "ReadDocument 1" "[]"] ok
    by (rule conjunct2 [THEN conjunct1, THEN mp])
  then have read: "view_count_of (dispatch noon (ReadDocument 1) (configured one_doc_db)) 1 = Some 1"
    by simp
  have update: "view_count_of
      (dispatch noon (UpdateDocument 1 title_update admin) (configured one_doc_db)) 1 = Some 0"
    using view_count_changes_only_by_reads
      [OF c, of noon "UpdateDocument 1 title_update admin" "[]"] by simp
  have "view_count_of
      (view_events [noon, noon + 1, noon + usec_per_day] 1 (configured one_doc_db)) 1
      = Some (0 + int (length [noon, noon + 1, noon + usec_per_day]))"
    using view_count_changes_only_by_reads
      [OF c, of noon "ReadDocument 1" "[noon, noon + 1, noon + usec_per_day]"] run
    by (rule conjunct2 [THEN conjunct2, THEN mp])
  then have three: "view_count_of
      (view_events [noon, noon + 1, noon + usec_per_day] 1 (configured one_doc_db)) 1 = Some 3"
    by simp
  from s as_declared c read update three refused top show ?thesis by (intro conjI)
qed

end
